theory Spec2Isabelle
  imports Complex_Main "HOL-Library.Sublist"
begin

section \<open>Python values used by the table syntaxes\<close>

text \<open>
  The two modules are Python 3. A \<open>str\<close> is modelled as a \<^typ>\<open>string\<close> whose characters
  are read as the code points 0 to 255; an \<open>int\<close> is an \<^typ>\<open>int\<close>. An exception is a
  value of \<open>py_error\<close>, returned on the left of a sum.
\<close>

datatype py_error = IndexError | ZeroDivisionError

text \<open>
  \<open>str.isspace\<close> on one character, which is also what \<open>\s\<close> matches in a \<open>str\<close> pattern:
  tab to carriage return, the four separators 28 to 31, the space, and in the Latin-1
  range NEL (133) and the no-break space (160).
\<close>

definition is_space :: "char \<Rightarrow> bool" where
  "is_space c =
     (let n = (of_char c :: nat)
      in (9 \<le> n \<and> n \<le> 13) \<or> (28 \<le> n \<and> n \<le> 32) \<or> n = 133 \<or> n = 160)"

text \<open>\<open>s.strip()\<close> with no argument removes leading and trailing whitespace.\<close>

definition py_strip :: "string \<Rightarrow> string" where
  "py_strip s = rev (dropWhile is_space (rev (dropWhile is_space s)))"

text \<open>
  \<open>s[i]\<close>: a negative index counts from the end, and an index outside the string raises
  \<open>IndexError\<close>.
\<close>

definition py_getitem :: "'a list \<Rightarrow> int \<Rightarrow> py_error + 'a" where
  "py_getitem xs i =
     (if 0 \<le> i \<and> i < int (length xs) then Inr (xs ! nat i)
      else if i < 0 \<and> - int (length xs) \<le> i then Inr (xs ! nat (int (length xs) + i))
      else Inl IndexError)"

text \<open>
  \<open>s * n\<close> on a string: \<open>n\<close> copies of \<open>s\<close>, and the empty string when \<open>n\<close> is zero or
  negative.
\<close>

definition py_repeat :: "string \<Rightarrow> int \<Rightarrow> string" where
  "py_repeat s n = concat (replicate (nat n) s)"

text \<open>\<open>list.insert(i, x)\<close>: the index is taken from the end when negative and clamped to the list.\<close>

definition list_insert :: "'a list \<Rightarrow> int \<Rightarrow> 'a \<Rightarrow> 'a list" where
  "list_insert xs i x =
     (let n = int (length xs);
          j = (if i < 0 then max 0 (i + n) else min i n)
      in take (nat j) xs @ x # drop (nat j) xs)"

section \<open>Regular expressions\<close>

text \<open>
  The patterns of the two parsers use character classes, sequence, \<open>?\<close>, \<open>+\<close> and \<open>*\<close> only.
  They are written as terms of \<open>rexp\<close> and decided by derivatives: \<open>full_match r s\<close> holds
  when the whole of \<open>s\<close> is a word of \<open>r\<close>.
\<close>

datatype rexp =
    Zero
  | One
  | Atom "char \<Rightarrow> bool"
  | Alt rexp rexp
  | Seq rexp rexp
  | Star rexp

fun nullable :: "rexp \<Rightarrow> bool" where
  "nullable Zero = False"
| "nullable One = True"
| "nullable (Atom p) = False"
| "nullable (Alt r s) = (nullable r \<or> nullable s)"
| "nullable (Seq r s) = (nullable r \<and> nullable s)"
| "nullable (Star r) = True"

fun deriv :: "char \<Rightarrow> rexp \<Rightarrow> rexp" where
  "deriv c Zero = Zero"
| "deriv c One = Zero"
| "deriv c (Atom p) = (if p c then One else Zero)"
| "deriv c (Alt r s) = Alt (deriv c r) (deriv c s)"
| "deriv c (Seq r s) =
     (if nullable r then Alt (Seq (deriv c r) s) (deriv c s) else Seq (deriv c r) s)"
| "deriv c (Star r) = Seq (deriv c r) (Star r)"

fun full_match :: "rexp \<Rightarrow> string \<Rightarrow> bool" where
  "full_match r [] = nullable r"
| "full_match r (c # cs) = full_match (deriv c r) cs"

text \<open>The operators of the patterns: one character, \<open>\s\<close>, \<open>r?\<close> and \<open>r+\<close>.\<close>

definition Chr :: "char \<Rightarrow> rexp" where
  "Chr c = Atom (\<lambda>x. x = c)"

definition Space :: rexp where
  "Space = Atom is_space"

definition Opt :: "rexp \<Rightarrow> rexp" where
  "Opt r = Alt r One"

definition Plus1 :: "rexp \<Rightarrow> rexp" where
  "Plus1 r = Seq r (Star r)"

text \<open>
  \<open>re.match(p, s)\<close> for a pattern \<open>p\<close> of the form \<open>^r$\<close>. The match starts at the beginning of
  \<open>s\<close>, and \<open>$\<close> holds at the end of \<open>s\<close> and also just before a newline that ends \<open>s\<close>.
\<close>

definition re_match :: "rexp \<Rightarrow> string \<Rightarrow> bool" where
  "re_match r s =
     (full_match r s \<or> (s \<noteq> [] \<and> last s = CHR 0x0A \<and> full_match r (butlast s)))"

text \<open>
  The body \<open>\s*:?d+:?\s*\<close> of the three separator patterns: \<open>d\<close> is \<open>-\<close> in
  \<open>MultiMarkdownAlignColumn.PATTERN\<close> (whose group only brackets the middle part) and in the
  single-border pattern of the Pandoc parser, and \<open>=\<close> in its double-border pattern.
\<close>

definition separator_rexp :: "char \<Rightarrow> rexp" where
  "separator_rexp d =
     Seq (Star Space) (Seq (Opt (Chr CHR '':''))
       (Seq (Plus1 (Chr d)) (Seq (Opt (Chr CHR '':'')) (Star Space))))"

definition PATTERN :: rexp where
  "PATTERN = separator_rexp CHR ''-''"

text \<open>
  The words of a regular expression, for the proofs: \<open>full_match r s\<close> holds exactly when
  \<open>s\<close> is one of them.
\<close>

definition conc :: "string set \<Rightarrow> string set \<Rightarrow> string set" where
  "conc A B = {u @ v |u v. u \<in> A \<and> v \<in> B}"

inductive_set star :: "string set \<Rightarrow> string set" for A :: "string set" where
  star_empty: "[] \<in> star A"
| star_more: "u \<in> A \<Longrightarrow> v \<in> star A \<Longrightarrow> u @ v \<in> star A"

fun lang :: "rexp \<Rightarrow> string set" where
  "lang Zero = {}"
| "lang One = {[]}"
| "lang (Atom p) = {[c] |c. p c}"
| "lang (Alt r s) = lang r \<union> lang s"
| "lang (Seq r s) = conc (lang r) (lang s)"
| "lang (Star r) = star (lang r)"

section \<open>Columns\<close>

text \<open>
  Modelled from the spec: \<open>tbase.Column\<close> is declared in \<open>table_base\<close>, which is not among
  the sources. The alignment of a column is \<open>None\<close>, Left, Right or Center: the constants
  \<open>ALIGN_LEFT\<close>, \<open>ALIGN_RIGHT\<close> and \<open>ALIGN_CENTER\<close> are the three values of \<open>align\<close>, and
  Python's \<open>None\<close> is \<^const>\<open>None\<close>. Of the fields of a column the code here reads the integers
  \<open>colspan\<close> and \<open>col_len\<close>.
\<close>

datatype align = ALIGN_LEFT | ALIGN_RIGHT | ALIGN_CENTER

record Column =
  colspan :: int
  col_len :: int

subsection \<open>MultiMarkdownAlignColumn\<close>

text \<open>The field \<open>_align_follow\<close> is \<open>mm_align_follow\<close>.\<close>

record MultiMarkdownAlignColumn = Column +
  mm_align_follow :: "align option"

text \<open>
  Lines 59 to 67 of \<open>__init__\<close>: the value given to \<open>_align_follow\<close>, or the exception of
  \<open>col[0]\<close> or \<open>col[-1]\<close>. \<open>col.count(':')\<close> counts the occurrences of the one character.
\<close>

definition MultiMarkdownAlignColumn_align :: "string \<Rightarrow> py_error + align option" where
  "MultiMarkdownAlignColumn_align data =
     (let col = py_strip data
      in if count_list col CHR '':'' = 2 then Inr (Some ALIGN_CENTER)
         else (case py_getitem col 0 of
                 Inl e \<Rightarrow> Inl e
               | Inr c0 \<Rightarrow>
                   if c0 = CHR '':'' then Inr (Some ALIGN_LEFT)
                   else (case py_getitem col (- 1) of
                           Inl e \<Rightarrow> Inl e
                         | Inr c1 \<Rightarrow>
                             if c1 = CHR '':'' then Inr (Some ALIGN_RIGHT) else Inr None)))"

text \<open>
  \<open>__init__(row, data)\<close>. \<open>tbase.Column.__init__(self, row)\<close> sets the inherited fields; its
  result is the argument \<open>base\<close>.
\<close>

definition MultiMarkdownAlignColumn_init ::
    "Column \<Rightarrow> string \<Rightarrow> py_error + MultiMarkdownAlignColumn" where
  "MultiMarkdownAlignColumn_init base data =
     (case MultiMarkdownAlignColumn_align data of
        Inl e \<Rightarrow> Inl e
      | Inr a \<Rightarrow> Inr \<lparr>colspan = colspan base, col_len = col_len base, mm_align_follow = a\<rparr>)"

text \<open>
  \<open>total_min_len\<close> and \<open>min_len\<close>. The module imports \<open>division\<close> from \<open>__future__\<close>, so
  \<open>/\<close> is the true division of two ints: it raises \<open>ZeroDivisionError\<close> on a zero divisor
  and otherwise gives the double nearest to the quotient. The quotient is taken exactly
  here, which is the same after \<open>math.ceil\<close> as long as the operands are below \<open>2 ^ 53\<close>.
\<close>

definition total_min_len :: "MultiMarkdownAlignColumn \<Rightarrow> int" where
  "total_min_len col = 5 + colspan col - 1"

definition MultiMarkdownAlignColumn_min_len :: "MultiMarkdownAlignColumn \<Rightarrow> py_error + int" where
  "MultiMarkdownAlignColumn_min_len col =
     (if colspan col = 0 then Inl ZeroDivisionError
      else Inr \<lceil>real_of_int (total_min_len col) / real_of_int (colspan col)\<rceil>)"

subsection \<open>PandocAlignColumn\<close>

text \<open>The field \<open>_align_follow\<close> is \<open>pd_align_follow\<close>.\<close>

record PandocAlignColumn = Column +
  separator :: string
  pd_align_follow :: "align option"

text \<open>\<open>_parse_alignment\<close>: \<open>startswith\<close> and \<open>endswith\<close> are prefix and suffix tests.\<close>

definition parse_alignment :: "string \<Rightarrow> align option" where
  "parse_alignment sep =
     (let core = py_strip sep
      in if prefix '':'' core \<and> suffix '':'' core then Some ALIGN_CENTER
         else if prefix '':'' core then Some ALIGN_LEFT
         else if suffix '':'' core then Some ALIGN_RIGHT
         else None)"

definition PandocAlignColumn_init :: "Column \<Rightarrow> string \<Rightarrow> PandocAlignColumn" where
  "PandocAlignColumn_init base sep =
     \<lparr>colspan = colspan base, col_len = col_len base,
      separator = sep, pd_align_follow = parse_alignment sep\<rparr>"

text \<open>
  \<open>min_len\<close> of the Pandoc column is the constant 3. In \<open>render\<close>, \<open>"=" in self.separator\<close>
  asks whether the character occurs in the stored separator text.
\<close>

definition PandocAlignColumn_min_len :: "PandocAlignColumn \<Rightarrow> int" where
  "PandocAlignColumn_min_len col = 3"

definition base_char :: "PandocAlignColumn \<Rightarrow> string" where
  "base_char col = (if CHR ''='' \<in> set (separator col) then ''='' else ''-'')"

definition PandocAlignColumn_render :: "PandocAlignColumn \<Rightarrow> string" where
  "PandocAlignColumn_render col =
     (if pd_align_follow col = Some ALIGN_CENTER then
        (if col_len col \<le> 2 then py_repeat (base_char col) (col_len col)
         else '':'' @ py_repeat (base_char col) (col_len col - 2) @ '':'')
      else if pd_align_follow col = Some ALIGN_LEFT then
        (if col_len col \<le> 1 then py_repeat (base_char col) (col_len col)
         else '':'' @ py_repeat (base_char col) (col_len col - 1))
      else if pd_align_follow col = Some ALIGN_RIGHT then
        (if col_len col \<le> 1 then py_repeat (base_char col) (col_len col)
         else py_repeat (base_char col) (col_len col - 1) @ '':'')
      else py_repeat (base_char col) (col_len col))"

text \<open>
  The multiplier of the one string repetition that \<open>render\<close> evaluates, branch by branch as
  in \<open>PandocAlignColumn_render\<close>.
\<close>

definition PandocAlignColumn_render_count :: "PandocAlignColumn \<Rightarrow> int" where
  "PandocAlignColumn_render_count col =
     (if pd_align_follow col = Some ALIGN_CENTER then
        (if col_len col \<le> 2 then col_len col else col_len col - 2)
      else if pd_align_follow col = Some ALIGN_LEFT then
        (if col_len col \<le> 1 then col_len col else col_len col - 1)
      else if pd_align_follow col = Some ALIGN_RIGHT then
        (if col_len col \<le> 1 then col_len col else col_len col - 1)
      else col_len col)"

section \<open>Line cells and the Multi-Markdown parser's columns\<close>

text \<open>
  Modelled from the spec: \<open>LineCell\<close> is declared in \<open>table_line_parser\<close>, which is not among
  the sources. It holds the text of one cell and the border texts on its two sides.
\<close>

record LineCell =
  text_of :: string
  left_border_text :: string
  right_border_text :: string

text \<open>
  \<open>MultiMarkdownTableParser.create_column\<close>. The column that
  \<open>tbase.BaseTableParser.create_column\<close> (not among the sources) returns is the argument
  \<open>column\<close>.
\<close>

definition MultiMarkdownTableParser_create_column ::
    "'a Column_scheme \<Rightarrow> LineCell \<Rightarrow> 'a Column_scheme" where
  "MultiMarkdownTableParser_create_column column line_cell =
     (if length (right_border_text line_cell) > 1
      then column\<lparr>colspan := int (length (right_border_text line_cell))\<rparr>
      else column)"

section \<open>Rows and tables\<close>

text \<open>
  The classes of the rows that the two modules create: \<open>tbase.DataRow\<close>,
  \<open>MultiMarkdownAlignRow\<close>, \<open>PandocAlignRow\<close> with its separator and \<open>tborder.SeparatorRow\<close>
  with its separator. A row holds its class and its columns; the type \<open>'c\<close> of the columns
  is left open. \<open>PandocAlignRow.__init__\<close> also sets \<open>align_columns\<close> to the empty list, a field
  that nothing in the two modules reads.
\<close>

datatype row_class =
    DataRow
  | MultiMarkdownAlignRow
  | PandocAlignRow string
  | SeparatorRow string

record 'c Row =
  row_class :: row_class
  columns :: "'c list"

text \<open>
  Modelled from the spec: \<open>tbase.Row.__init__\<close> is not among the sources; a row that has just
  been constructed (the spec's empty row) has no columns.
\<close>

definition new_row :: "row_class \<Rightarrow> 'c Row" where
  "new_row cls = \<lparr>row_class = cls, columns = []\<rparr>"

text \<open>
  Modelled from the spec: the \<open>is_separator\<close> of \<open>tbase.DataRow\<close> and of
  \<open>tborder.SeparatorRow\<close> are not among the sources; a data row is not a separator and a
  separator row is one. \<open>MultiMarkdownAlignRow\<close> and \<open>PandocAlignRow\<close> override the method to
  return \<open>True\<close>.
\<close>

definition is_separator :: "'c Row \<Rightarrow> bool" where
  "is_separator row =
     (case row_class row of
        DataRow \<Rightarrow> False
      | MultiMarkdownAlignRow \<Rightarrow> True
      | PandocAlignRow sep \<Rightarrow> True
      | SeparatorRow sep \<Rightarrow> True)"

text \<open>\<open>isinstance(row, PandocAlignRow)\<close>.\<close>

definition isinstance_PandocAlignRow :: "'c Row \<Rightarrow> bool" where
  "isinstance_PandocAlignRow row =
     (case row_class row of
        DataRow \<Rightarrow> False
      | MultiMarkdownAlignRow \<Rightarrow> False
      | PandocAlignRow sep \<Rightarrow> True
      | SeparatorRow sep \<Rightarrow> False)"

text \<open>\<open>new_empty_column\<close> and \<open>create_column\<close> of the two alignment rows.\<close>

definition MultiMarkdownAlignRow_new_empty_column ::
    "Column \<Rightarrow> py_error + MultiMarkdownAlignColumn" where
  "MultiMarkdownAlignRow_new_empty_column base = MultiMarkdownAlignColumn_init base ''-''"

definition MultiMarkdownAlignRow_create_column ::
    "Column \<Rightarrow> string \<Rightarrow> py_error + MultiMarkdownAlignColumn" where
  "MultiMarkdownAlignRow_create_column base text = MultiMarkdownAlignColumn_init base text"

definition PandocAlignRow_new_empty_column :: "Column \<Rightarrow> string \<Rightarrow> PandocAlignColumn" where
  "PandocAlignRow_new_empty_column base sep = PandocAlignColumn_init base (py_repeat sep 3)"

definition PandocAlignRow_create_column :: "Column \<Rightarrow> string \<Rightarrow> PandocAlignColumn" where
  "PandocAlignRow_create_column base text = PandocAlignColumn_init base text"

text \<open>
  Modelled from the spec: \<open>tbase.TablePos\<close> and \<open>tbase.Table\<close> are declared in
  \<open>table_base\<close>, which is not among the sources. A position is a pair of a row number and a
  field number; a table is an ordered sequence of rows, the list \<open>rows\<close> that the drivers
  use.
\<close>

record TablePos =
  row_num :: int
  field_num :: int

record 'c Table =
  rows :: "'c Row list"

text \<open>
  Modelled from the spec: \<open>Table.__len__\<close> and \<open>Table.__getitem__\<close> are not among the sources;
  a table is the ordered sequence of its rows, so \<open>len(table)\<close> is their number and
  \<open>table[i]\<close> is \<open>table.rows[i]\<close>.
\<close>

definition table_len :: "'c Table \<Rightarrow> int" where
  "table_len table = int (length (rows table))"

definition table_getitem :: "'c Table \<Rightarrow> int \<Rightarrow> py_error + 'c Row" where
  "table_getitem table i = py_getitem (rows table) i"

text \<open>
  Modelled from the spec: \<open>Table.pack\<close> is not among the sources. It recomputes the column
  counts and widths across all rows, so that all rows present a consistent grid; the rows
  themselves stay in their places. What the columns of a row become, given the table, is
  the parameter \<open>pack_columns\<close>.
\<close>

definition pack_row :: "('c Table \<Rightarrow> 'c Row \<Rightarrow> 'c list) \<Rightarrow> 'c Table \<Rightarrow> 'c Row \<Rightarrow> 'c Row" where
  "pack_row pack_columns table row = row\<lparr>columns := pack_columns table row\<rparr>"

definition pack :: "('c Table \<Rightarrow> 'c Row \<Rightarrow> 'c list) \<Rightarrow> 'c Table \<Rightarrow> 'c Table" where
  "pack pack_columns table = table\<lparr>rows := map (pack_row pack_columns table) (rows table)\<rparr>"

text \<open>
  Modelled from the spec: \<open>Table.insert_empty_row\<close> is not among the sources. It inserts an
  empty data row at the index; as the spec has driver operations insert rows and call
  \<open>pack()\<close>, the table is packed afterwards.
\<close>

definition insert_empty_row ::
    "('c Table \<Rightarrow> 'c Row \<Rightarrow> 'c list) \<Rightarrow> 'c Table \<Rightarrow> int \<Rightarrow> 'c Table" where
  "insert_empty_row pack_columns table i =
     pack pack_columns (table\<lparr>rows := list_insert (rows table) i (new_row DataRow)\<rparr>)"

section \<open>The Pandoc parser\<close>

text \<open>
  The two loops over \<open>str_cols\<close> that return \<open>False\<close> at the first cell which does not match,
  and the loop that returns \<open>True\<close> at the first cell with a colon.
\<close>

fun columns_all_match :: "rexp \<Rightarrow> string list \<Rightarrow> bool" where
  "columns_all_match r [] = True"
| "columns_all_match r (col # cols) =
     (if \<not> re_match r col then False else columns_all_match r cols)"

definition is_single_row_separator_with_align :: "string list \<Rightarrow> bool" where
  "is_single_row_separator_with_align str_cols =
     (if length str_cols = 0 then False
      else columns_all_match (separator_rexp CHR ''-'') str_cols)"

definition is_double_row_separator_with_align :: "string list \<Rightarrow> bool" where
  "is_double_row_separator_with_align str_cols =
     (if length str_cols = 0 then False
      else columns_all_match (separator_rexp CHR ''='') str_cols)"

fun has_alignment_markers :: "string list \<Rightarrow> bool" where
  "has_alignment_markers [] = False"
| "has_alignment_markers (col # cols) =
     (if CHR '':'' \<in> set col then True else has_alignment_markers cols)"

text \<open>
  Modelled from the spec: \<open>create_data_row\<close> belongs to \<open>tborder.BorderTableParser\<close>, which
  is not among the sources; it gives a data row. The rest is \<open>create_row\<close> as written, on
  \<open>line.str_cols()\<close>.
\<close>

definition PandocTableParser_create_row :: "string list \<Rightarrow> 'c Row" where
  "PandocTableParser_create_row str_cols =
     (if is_single_row_separator_with_align str_cols then
        (if has_alignment_markers str_cols then new_row (PandocAlignRow ''-'')
         else new_row (SeparatorRow ''-''))
      else if is_double_row_separator_with_align str_cols then
        (if has_alignment_markers str_cols then new_row (PandocAlignRow ''='')
         else new_row (SeparatorRow ''=''))
      else new_row DataRow)"

section \<open>The table drivers\<close>

text \<open>
  The drivers change the table in place and return a message and a position; here they
  return the new table with them. \<open>editor_insert_hline_and_move\<close> indexes the table, which
  can raise.
\<close>

definition MultiMarkdownTableDriver_editor_insert_single_hline ::
    "('c Table \<Rightarrow> 'c Row \<Rightarrow> 'c list) \<Rightarrow> 'c Table \<Rightarrow> TablePos \<Rightarrow> 'c Table \<times> string \<times> TablePos" where
  "MultiMarkdownTableDriver_editor_insert_single_hline pack_columns table table_pos =
     (let table1 = table\<lparr>rows :=
            list_insert (rows table) (row_num table_pos + 1) (new_row MultiMarkdownAlignRow)\<rparr>;
          table2 = pack pack_columns table1
      in (table2, ''Single separator row inserted'',
          \<lparr>row_num = row_num table_pos, field_num = field_num table_pos\<rparr>))"

definition MultiMarkdownTableDriver_editor_insert_hline_and_move ::
    "('c Table \<Rightarrow> 'c Row \<Rightarrow> 'c list) \<Rightarrow> 'c Table \<Rightarrow> TablePos
       \<Rightarrow> py_error + 'c Table \<times> string \<times> TablePos" where
  "MultiMarkdownTableDriver_editor_insert_hline_and_move pack_columns table table_pos =
     (let table1 = table\<lparr>rows :=
            list_insert (rows table) (row_num table_pos + 1) (new_row MultiMarkdownAlignRow)\<rparr>;
          table2 = pack pack_columns table1;
          result = (''Single separator row inserted'',
                    \<lparr>row_num = row_num table_pos + 2, field_num = 0\<rparr>)
      in if row_num table_pos + 2 < table_len table2 then
           (case table_getitem table2 (row_num table_pos + 2) of
              Inl e \<Rightarrow> Inl e
            | Inr row \<Rightarrow>
                if is_separator row
                then Inr (insert_empty_row pack_columns table2 (row_num table_pos + 2), result)
                else Inr (table2, result))
         else Inr (insert_empty_row pack_columns table2 (row_num table_pos + 2), result))"

text \<open>The loop of the Pandoc driver that looks for a \<open>PandocAlignRow\<close> and stops at the first.\<close>

fun has_alignment :: "'c Row list \<Rightarrow> bool" where
  "has_alignment [] = False"
| "has_alignment (row # more_rows) =
     (if isinstance_PandocAlignRow row then True else has_alignment more_rows)"

definition PandocTableDriver_editor_insert_single_hline ::
    "('c Table \<Rightarrow> 'c Row \<Rightarrow> 'c list) \<Rightarrow> 'c Table \<Rightarrow> TablePos \<Rightarrow> 'c Table \<times> string \<times> TablePos" where
  "PandocTableDriver_editor_insert_single_hline pack_columns table table_pos =
     (let table1 =
            (if has_alignment (rows table)
             then table\<lparr>rows :=
                    list_insert (rows table) (row_num table_pos + 1) (new_row (PandocAlignRow ''-''))\<rparr>
             else table\<lparr>rows :=
                    list_insert (rows table) (row_num table_pos + 1) (new_row (SeparatorRow ''-''))\<rparr>);
          table2 = pack pack_columns table1
      in (table2, ''Single separator row inserted'',
          \<lparr>row_num = row_num table_pos, field_num = field_num table_pos\<rparr>))"

definition PandocTableDriver_editor_insert_double_hline ::
    "('c Table \<Rightarrow> 'c Row \<Rightarrow> 'c list) \<Rightarrow> 'c Table \<Rightarrow> TablePos \<Rightarrow> 'c Table \<times> string \<times> TablePos" where
  "PandocTableDriver_editor_insert_double_hline pack_columns table table_pos =
     (let table1 =
            (if has_alignment (rows table)
             then table\<lparr>rows :=
                    list_insert (rows table) (row_num table_pos + 1) (new_row (PandocAlignRow ''=''))\<rparr>
             else table\<lparr>rows :=
                    list_insert (rows table) (row_num table_pos + 1) (new_row (SeparatorRow ''=''))\<rparr>);
          table2 = pack pack_columns table1
      in (table2, ''Double separator row inserted'',
          \<lparr>row_num = row_num table_pos, field_num = field_num table_pos\<rparr>))"

section \<open>Separator cells\<close>

text \<open>
  The cells the separator patterns are written for: optional whitespace, an optional colon,
  one or more border characters \<open>d\<close>, an optional colon, optional whitespace.
\<close>

definition separator_cell :: "string \<Rightarrow> bool \<Rightarrow> char \<Rightarrow> nat \<Rightarrow> bool \<Rightarrow> string \<Rightarrow> string" where
  "separator_cell l lead d n trail r =
     l @ (if lead then '':'' else []) @ replicate (Suc n) d @ (if trail then '':'' else []) @ r"


section \<open>Properties\<close>

subsection \<open>Stripping and indexing\<close>

lemma py_strip_core:
  assumes "core \<noteq> []" "\<not> is_space (hd core)" "\<not> is_space (last core)"
    and "list_all is_space l" "list_all is_space r"
  shows "py_strip (l @ core @ r) = core"
proof -
  have front: "dropWhile is_space (l @ core @ r) = core @ r"
    using assms(1,2,4) by (cases core) (simp_all add: dropWhile_append3 list_all_iff dropWhile_append)
  have "dropWhile is_space (rev r @ rev core) = rev core"
    using assms(1,3,5) by (cases core rule: rev_cases) (simp_all add: list_all_iff dropWhile_append)
  with front show ?thesis by (simp add: py_strip_def)
qed

lemma py_getitem_first: "xs \<noteq> [] \<Longrightarrow> py_getitem xs 0 = Inr (hd xs)"
  by (cases xs) (simp_all add: py_getitem_def)

lemma py_getitem_last: "xs \<noteq> [] \<Longrightarrow> py_getitem xs (- 1) = Inr (last xs)"
  by (cases xs rule: rev_cases) (simp_all add: py_getitem_def nth_append)

lemma py_getitem_Nil: "py_getitem [] i = Inl IndexError"
  by (simp add: py_getitem_def)

lemma MultiMarkdownAlignColumn_align_cases:
  "MultiMarkdownAlignColumn_align data =
     (let col = py_strip data
      in if count_list col CHR '':'' = 2 then Inr (Some ALIGN_CENTER)
         else if col = [] then Inl IndexError
         else if hd col = CHR '':'' then Inr (Some ALIGN_LEFT)
         else if last col = CHR '':'' then Inr (Some ALIGN_RIGHT)
         else Inr None)"
  by (simp add: MultiMarkdownAlignColumn_align_def Let_def py_getitem_first py_getitem_last
      py_getitem_Nil)

lemma prefix_colon: "prefix [c] xs = (xs \<noteq> [] \<and> hd xs = c)"
  by (cases xs) auto

lemma suffix_colon: "suffix [c] xs = (xs \<noteq> [] \<and> last xs = c)"
  by (cases xs rule: rev_cases) auto

lemma parse_alignment_cases:
  "parse_alignment sep =
     (let core = py_strip sep
      in if core = [] then None
         else if hd core = CHR '':'' \<and> last core = CHR '':'' then Some ALIGN_CENTER
         else if hd core = CHR '':'' then Some ALIGN_LEFT
         else if last core = CHR '':'' then Some ALIGN_RIGHT
         else None)"
  by (simp add: parse_alignment_def Let_def prefix_colon suffix_colon)

lemma count_list_replicate_other: "x \<noteq> y \<Longrightarrow> count_list (replicate n x) y = 0"
  by (induction n) simp_all

lemma not_space_colon: "\<not> is_space CHR '':''" by (simp add: is_space_def)
lemma not_space_dash: "\<not> is_space CHR ''-''" by (simp add: is_space_def)
lemma not_space_eq: "\<not> is_space CHR ''=''" by (simp add: is_space_def)

lemma py_strip_separator_cell:
  assumes "list_all is_space l" "list_all is_space r" "\<not> is_space d"
  shows "py_strip (separator_cell l lead d n trail r) = separator_cell [] lead d n trail []"
proof -
  let ?core = "separator_cell [] lead d n trail []"
  have "?core \<noteq> []" "\<not> is_space (hd ?core)" "\<not> is_space (last ?core)"
    using assms(3) by (simp_all add: separator_cell_def not_space_colon)
  from py_strip_core[OF this assms(1,2)] show ?thesis
    by (simp add: separator_cell_def)
qed

lemma count_colon_separator_cell:
  "d \<noteq> CHR '':'' \<Longrightarrow> count_list (separator_cell [] lead d n trail []) CHR '':'' =
     (if lead then 1 else 0) + (if trail then 1 else 0)"
  by (simp add: separator_cell_def count_list_replicate_other)

lemma hd_separator_cell:
  "hd (separator_cell [] lead d n trail []) = (if lead then CHR '':'' else d)"
  by (simp add: separator_cell_def)

lemma last_separator_cell:
  "last (separator_cell [] lead d n trail []) = (if trail then CHR '':'' else d)"
  by (simp add: separator_cell_def)

lemma separator_cell_not_Nil: "separator_cell l lead d n trail r \<noteq> []"
  by (simp add: separator_cell_def)

lemma mm_align_separator_cell:
  assumes "list_all is_space l" "list_all is_space r"
  shows "MultiMarkdownAlignColumn_align (separator_cell l lead CHR ''-'' n trail r) =
     Inr (if lead \<and> trail then Some ALIGN_CENTER else if lead then Some ALIGN_LEFT
          else if trail then Some ALIGN_RIGHT else None)"
  by (simp add: MultiMarkdownAlignColumn_align_cases py_strip_separator_cell[OF assms not_space_dash]
      count_colon_separator_cell hd_separator_cell last_separator_cell separator_cell_not_Nil)

lemma pd_align_separator_cell:
  assumes "list_all is_space l" "list_all is_space r" "d = CHR ''-'' \<or> d = CHR ''=''"
  shows "parse_alignment (separator_cell l lead d n trail r) =
     (if lead \<and> trail then Some ALIGN_CENTER else if lead then Some ALIGN_LEFT
          else if trail then Some ALIGN_RIGHT else None)"
proof -
  have d: "\<not> is_space d" "d \<noteq> CHR '':''"
    using assms(3) not_space_dash not_space_eq by auto
  show ?thesis
    using d(2) by (simp add: parse_alignment_cases py_strip_separator_cell[OF assms(1,2) d(1)]
      hd_separator_cell last_separator_cell separator_cell_not_Nil)
qed

subsection \<open>Alignment inference\<close>

text \<open>
  Claim C1. For a separator cell, with any number of border characters and any surrounding
  whitespace, both dialects infer Center from a colon at both ends, Left from a leading
  colon only, Right from a trailing colon only and no alignment from no colon; the Pandoc
  rule does so for \<open>-\<close> and for \<open>=\<close>. The Multi-Markdown constructor yields Center exactly
  when the stripped cell holds two colons in total, so the cell \<open>::\<close> is Center.
\<close>

theorem alignment_inference:
  assumes "list_all is_space l" and "list_all is_space r" and "d = CHR ''-'' \<or> d = CHR ''=''"
  shows "MultiMarkdownAlignColumn_align (separator_cell l True CHR ''-'' n True r) = Inr (Some ALIGN_CENTER)
       \<and> MultiMarkdownAlignColumn_align (separator_cell l True CHR ''-'' n False r) = Inr (Some ALIGN_LEFT)
       \<and> MultiMarkdownAlignColumn_align (separator_cell l False CHR ''-'' n True r) = Inr (Some ALIGN_RIGHT)
       \<and> MultiMarkdownAlignColumn_align (separator_cell l False CHR ''-'' n False r) = Inr None
       \<and> parse_alignment (separator_cell l True d n True r) = Some ALIGN_CENTER
       \<and> parse_alignment (separator_cell l True d n False r) = Some ALIGN_LEFT
       \<and> parse_alignment (separator_cell l False d n True r) = Some ALIGN_RIGHT
       \<and> parse_alignment (separator_cell l False d n False r) = None
       \<and> (MultiMarkdownAlignColumn_align data = Inr (Some ALIGN_CENTER))
           = (count_list (py_strip data) CHR '':'' = 2)
       \<and> MultiMarkdownAlignColumn_align ''::'' = Inr (Some ALIGN_CENTER)"
proof -
  have counting: "(MultiMarkdownAlignColumn_align data = Inr (Some ALIGN_CENTER))
      = (count_list (py_strip data) CHR '':'' = 2)"
    by (simp add: MultiMarkdownAlignColumn_align_cases Let_def)
  have two: "MultiMarkdownAlignColumn_align ''::'' = Inr (Some ALIGN_CENTER)"
    by (simp add: MultiMarkdownAlignColumn_align_def py_strip_def is_space_def)
  show ?thesis
    using counting two
    by (simp add: mm_align_separator_cell[OF assms(1,2)] pd_align_separator_cell[OF assms])
qed

theorem alignment_inference_witness:
  "MultiMarkdownAlignColumn_align '':---:'' = Inr (Some ALIGN_CENTER)
 \<and> MultiMarkdownAlignColumn_align '':---'' = Inr (Some ALIGN_LEFT)
 \<and> MultiMarkdownAlignColumn_align ''---:'' = Inr (Some ALIGN_RIGHT)
 \<and> MultiMarkdownAlignColumn_align ''---'' = Inr None
 \<and> parse_alignment '':---:'' = Some ALIGN_CENTER
 \<and> parse_alignment '':---'' = Some ALIGN_LEFT
 \<and> parse_alignment ''---:'' = Some ALIGN_RIGHT
 \<and> parse_alignment ''---'' = None
 \<and> parse_alignment '':===:'' = Some ALIGN_CENTER
 \<and> parse_alignment '':==='' = Some ALIGN_LEFT
 \<and> parse_alignment ''===:'' = Some ALIGN_RIGHT
 \<and> parse_alignment ''==='' = None
 \<and> (MultiMarkdownAlignColumn_align ''::'' = Inr (Some ALIGN_CENTER))
       = (count_list (py_strip ''::'') CHR '':'' = 2)"
  using alignment_inference[of "[]" "[]" "CHR ''-''" "Suc (Suc 0)" "''::''"]
    alignment_inference[of "[]" "[]" "CHR ''=''" "Suc (Suc 0)" "''::''"]
  by (simp add: separator_cell_def)

text \<open>
  Claim C3 says that the cell \<open>:-:-:\<close> is Center under the counting rule. It holds three
  colons, so the test for two fails and the leading colon makes it Left.
\<close>

theorem three_colons_counterexample:
  "MultiMarkdownAlignColumn_align '':-:-:'' \<noteq> Inr (Some ALIGN_CENTER)"
  by (simp add: MultiMarkdownAlignColumn_align_def py_strip_def is_space_def py_getitem_def)

text \<open>
  Claim C3, amended. The cell \<open>:-:-:\<close> holds three colons and is Left; an odd cell with
  exactly two colons, such as \<open>:-:-\<close>, is Center.
\<close>

theorem three_colons_left:
  "count_list (py_strip '':-:-:'') CHR '':'' = 3
 \<and> MultiMarkdownAlignColumn_align '':-:-:'' = Inr (Some ALIGN_LEFT)
 \<and> count_list (py_strip '':-:-'') CHR '':'' = 2
 \<and> MultiMarkdownAlignColumn_align '':-:-'' = Inr (Some ALIGN_CENTER)"
  by (simp add: MultiMarkdownAlignColumn_align_def py_strip_def is_space_def py_getitem_def)


subsection \<open>Rendering a Pandoc alignment column\<close>

lemma length_py_repeat_single: "length (py_repeat [c] n) = nat n"
  by (simp add: py_repeat_def length_concat sum_list_replicate)

lemma length_base_char: "length (base_char col) = 1"
  by (simp add: base_char_def)

lemma length_py_repeat_base: "length (py_repeat (base_char col) n) = nat n"
  by (simp add: py_repeat_def length_concat sum_list_replicate length_base_char)

lemma set_py_repeat_base: "CHR '':'' \<notin> set (py_repeat (base_char col) n)"
  by (auto simp: py_repeat_def base_char_def)

text \<open>
  Claim C8 gives the rendering as lead, fill and trail for every assigned width. At a Center
  column of width 2 that would be \<open>::\<close>, and at a Left column of width 1 it would be \<open>:\<close>;
  \<open>render\<close> returns \<open>--\<close> and \<open>-\<close> there.
\<close>

theorem render_small_width_counterexample:
  "PandocAlignColumn_render
      \<lparr>colspan = 1, col_len = 2, separator = '':-:'', pd_align_follow = Some ALIGN_CENTER\<rparr>
     \<noteq> '':'' @ py_repeat ''-'' (2 - 2) @ '':''
   \<and> PandocAlignColumn_render
      \<lparr>colspan = 1, col_len = 1, separator = '':-'', pd_align_follow = Some ALIGN_LEFT\<rparr>
     \<noteq> '':'' @ py_repeat ''-'' (1 - 1)"
  by (simp add: PandocAlignColumn_render_def py_repeat_def base_char_def eval_nat_numeral)

text \<open>
  Claim C8, amended. With width \<open>w = col_len\<close>, \<open>render\<close> gives a colon, \<open>w - 2\<close> base
  characters and a colon for a Center column when \<open>3 \<le> w\<close>; a colon and \<open>w - 1\<close> base
  characters for a Left column, and \<open>w - 1\<close> base characters and a colon for a Right column,
  when \<open>2 \<le> w\<close>; and \<open>w\<close> base characters for a column with no alignment when \<open>0 \<le> w\<close>.
  There is no outer padding, the length of the result is \<open>w\<close>, and the base character is
  \<open>=\<close> when the stored separator text contains one and \<open>-\<close> otherwise.
\<close>

theorem render_fills_width:
  "(pd_align_follow col = Some ALIGN_CENTER \<and> 3 \<le> col_len col \<longrightarrow>
      PandocAlignColumn_render col = '':'' @ py_repeat (base_char col) (col_len col - 2) @ '':''
      \<and> int (length (PandocAlignColumn_render col)) = col_len col)
 \<and> (pd_align_follow col = Some ALIGN_LEFT \<and> 2 \<le> col_len col \<longrightarrow>
      PandocAlignColumn_render col = '':'' @ py_repeat (base_char col) (col_len col - 1)
      \<and> int (length (PandocAlignColumn_render col)) = col_len col)
 \<and> (pd_align_follow col = Some ALIGN_RIGHT \<and> 2 \<le> col_len col \<longrightarrow>
      PandocAlignColumn_render col = py_repeat (base_char col) (col_len col - 1) @ '':''
      \<and> int (length (PandocAlignColumn_render col)) = col_len col)
 \<and> (pd_align_follow col = None \<and> 0 \<le> col_len col \<longrightarrow>
      PandocAlignColumn_render col = py_repeat (base_char col) (col_len col)
      \<and> int (length (PandocAlignColumn_render col)) = col_len col)
 \<and> base_char col = (if CHR ''='' \<in> set (separator col) then ''='' else ''-'')"
proof (intro conjI impI)
  show "base_char col = (if CHR ''='' \<in> set (separator col) then ''='' else ''-'')"
    by (simp add: base_char_def)
qed (simp_all add: PandocAlignColumn_render_def length_py_repeat_base)

theorem render_fills_width_witness:
  "PandocAlignColumn_render
      \<lparr>colspan = 1, col_len = 5, separator = '':===:'', pd_align_follow = Some ALIGN_CENTER\<rparr>
     = '':===:''
 \<and> PandocAlignColumn_render
      \<lparr>colspan = 1, col_len = 5, separator = '':---'', pd_align_follow = Some ALIGN_LEFT\<rparr>
     = '':----''
 \<and> PandocAlignColumn_render
      \<lparr>colspan = 1, col_len = 5, separator = ''---:'', pd_align_follow = Some ALIGN_RIGHT\<rparr>
     = ''----:''
 \<and> PandocAlignColumn_render
      \<lparr>colspan = 1, col_len = 5, separator = ''---'', pd_align_follow = None\<rparr>
     = ''-----''"
  using render_fills_width[of "\<lparr>colspan = 1, col_len = 5, separator = '':===:'', pd_align_follow = Some ALIGN_CENTER\<rparr>"]
    render_fills_width[of "\<lparr>colspan = 1, col_len = 5, separator = '':---'', pd_align_follow = Some ALIGN_LEFT\<rparr>"]
    render_fills_width[of "\<lparr>colspan = 1, col_len = 5, separator = ''---:'', pd_align_follow = Some ALIGN_RIGHT\<rparr>"]
    render_fills_width[of "\<lparr>colspan = 1, col_len = 5, separator = ''---'', pd_align_follow = None\<rparr>"]
  by (simp add: py_repeat_def base_char_def eval_nat_numeral)

text \<open>
  Claim C9. For every column with \<open>0 \<le> col_len\<close>, the repetition that \<open>render\<close> evaluates has
  a multiplier that is not negative and the result has length \<open>col_len\<close>. When the column is
  Center and \<open>col_len \<le> 2\<close>, or Left or Right and \<open>col_len \<le> 1\<close>, the result is the base
  character repeated \<open>col_len\<close> times and holds no colon.
\<close>

theorem render_small_widths:
  assumes "0 \<le> col_len col"
  shows "0 \<le> PandocAlignColumn_render_count col
       \<and> int (length (PandocAlignColumn_render col)) = col_len col
       \<and> ((pd_align_follow col = Some ALIGN_CENTER \<and> col_len col \<le> 2)
           \<or> (pd_align_follow col \<in> {Some ALIGN_LEFT, Some ALIGN_RIGHT} \<and> col_len col \<le> 1)
          \<longrightarrow> PandocAlignColumn_render col = py_repeat (base_char col) (col_len col)
              \<and> CHR '':'' \<notin> set (PandocAlignColumn_render col))"
proof -
  have count: "0 \<le> PandocAlignColumn_render_count col"
    using assms by (simp add: PandocAlignColumn_render_count_def)
  have len: "int (length (PandocAlignColumn_render col)) = col_len col"
    using assms by (simp add: PandocAlignColumn_render_def length_py_repeat_base)
  have small: "PandocAlignColumn_render col = py_repeat (base_char col) (col_len col)"
    if "(pd_align_follow col = Some ALIGN_CENTER \<and> col_len col \<le> 2)
           \<or> (pd_align_follow col \<in> {Some ALIGN_LEFT, Some ALIGN_RIGHT} \<and> col_len col \<le> 1)"
    using that by (auto simp: PandocAlignColumn_render_def)
  show ?thesis
    using count len small set_py_repeat_base by auto
qed

theorem render_small_widths_witness:
  "0 \<le> PandocAlignColumn_render_count
      \<lparr>colspan = 1, col_len = 2, separator = '':=:'', pd_align_follow = Some ALIGN_CENTER\<rparr>
 \<and> PandocAlignColumn_render
      \<lparr>colspan = 1, col_len = 2, separator = '':=:'', pd_align_follow = Some ALIGN_CENTER\<rparr>
     = ''==''
 \<and> PandocAlignColumn_render
      \<lparr>colspan = 1, col_len = 1, separator = '':-'', pd_align_follow = Some ALIGN_LEFT\<rparr>
     = ''-''"
  using render_small_widths[of "\<lparr>colspan = 1, col_len = 2, separator = '':=:'', pd_align_follow = Some ALIGN_CENTER\<rparr>"]
    render_small_widths[of "\<lparr>colspan = 1, col_len = 1, separator = '':-'', pd_align_follow = Some ALIGN_LEFT\<rparr>"]
  by (simp add: py_repeat_def base_char_def eval_nat_numeral)

subsection \<open>Column spans and minimal widths in Multi-Markdown\<close>

lemma ceiling_quotient_two:
  assumes "5 \<le> (c::int)"
  shows "\<lceil>real_of_int (5 + c - 1) / real_of_int c\<rceil> = 2"
proof (rule ceiling_unique)
  show "real_of_int 2 - 1 < real_of_int (5 + c - 1) / real_of_int c"
    using assms by (simp add: field_simps)
  show "real_of_int (5 + c - 1) / real_of_int c \<le> real_of_int 2"
    using assms by (simp add: field_simps)
qed

lemma min_len_values:
  assumes "1 \<le> colspan col"
  shows "MultiMarkdownAlignColumn_min_len col =
     Inr (if colspan col = 1 then 5 else if colspan col \<le> 3 then 3 else 2)"
proof -
  consider "colspan col = 1" | "colspan col = 2" | "colspan col = 3" | "colspan col = 4"
    | "5 \<le> colspan col"
    using assms by linarith
  then show ?thesis
  proof cases
    case 5
    then show ?thesis
      using ceiling_quotient_two[of "colspan col"]
      by (simp add: MultiMarkdownAlignColumn_min_len_def total_min_len_def)
  qed (simp_all add: MultiMarkdownAlignColumn_min_len_def total_min_len_def)
qed

text \<open>
  Claim C4. A line cell whose right border text has length \<open>k\<close>, \<open>2 \<le> k\<close>, gives a column of
  colspan \<open>k\<close>. A Multi-Markdown alignment column of colspan \<open>c\<close>, with \<open>1 \<le> c\<close> as the
  data model has it and \<open>c\<close> in the range where the division is exact, has
  \<open>total_min_len = 5 + (c - 1)\<close> and \<open>min_len\<close> the ceiling of \<open>(5 + c - 1) / c\<close>, which is
  5, 3, 3 for \<open>c\<close> = 1, 2, 3 and 2 from 4 on. Under a border \<open>||\<close> the column has
  \<open>min_len = 3\<close>.
\<close>

theorem colspan_min_len:
  assumes "1 \<le> colspan col" and "colspan col < 2 ^ 53"
  shows "(2 \<le> length (right_border_text line_cell) \<longrightarrow>
            colspan (MultiMarkdownTableParser_create_column column line_cell)
              = int (length (right_border_text line_cell)))
       \<and> total_min_len col = 5 + (colspan col - 1)
       \<and> MultiMarkdownAlignColumn_min_len col
           = Inr \<lceil>real_of_int (5 + colspan col - 1) / real_of_int (colspan col)\<rceil>
       \<and> MultiMarkdownAlignColumn_min_len col
           = Inr (if colspan col = 1 then 5 else if colspan col \<le> 3 then 3 else 2)
       \<and> (right_border_text line_cell = ''||'' \<longrightarrow>
            MultiMarkdownAlignColumn_min_len
               (MultiMarkdownTableParser_create_column col line_cell) = Inr 3)"
proof -
  have span: "colspan (MultiMarkdownTableParser_create_column column line_cell)
      = int (length (right_border_text line_cell))"
    if "2 \<le> length (right_border_text line_cell)"
    using that by (simp add: MultiMarkdownTableParser_create_column_def)
  have total: "total_min_len col = 5 + (colspan col - 1)"
    by (simp add: total_min_len_def)
  have quotient: "MultiMarkdownAlignColumn_min_len col
      = Inr \<lceil>real_of_int (5 + colspan col - 1) / real_of_int (colspan col)\<rceil>"
    using assms(1) by (simp add: MultiMarkdownAlignColumn_min_len_def total_min_len_def)
  have two: "MultiMarkdownAlignColumn_min_len
      (MultiMarkdownTableParser_create_column col line_cell) = Inr 3"
    if "right_border_text line_cell = ''||''"
    using that
    by (simp add: MultiMarkdownTableParser_create_column_def MultiMarkdownAlignColumn_min_len_def
        total_min_len_def)
  show ?thesis
    using span total quotient min_len_values[OF assms(1)] two by blast
qed

theorem colspan_min_len_witness:
  "colspan (MultiMarkdownTableParser_create_column
       \<lparr>colspan = 1, col_len = 0, mm_align_follow = None\<rparr>
       \<lparr>text_of = '' a '', left_border_text = ''|'', right_border_text = ''||''\<rparr>) = 2
 \<and> total_min_len \<lparr>colspan = 2, col_len = 0, mm_align_follow = None\<rparr> = 6
 \<and> MultiMarkdownAlignColumn_min_len \<lparr>colspan = 2, col_len = 0, mm_align_follow = None\<rparr> = Inr 3
 \<and> MultiMarkdownAlignColumn_min_len
      (MultiMarkdownTableParser_create_column
         \<lparr>colspan = 1, col_len = 0, mm_align_follow = None\<rparr>
         \<lparr>text_of = '' a '', left_border_text = ''|'', right_border_text = ''||''\<rparr>) = Inr 3"
  using colspan_min_len[of "\<lparr>colspan = 2, col_len = 0, mm_align_follow = None\<rparr>"
      "\<lparr>text_of = '' a '', left_border_text = ''|'', right_border_text = ''||''\<rparr>"
      "\<lparr>colspan = 1, col_len = 0, mm_align_follow = None\<rparr>"]
    colspan_min_len[of "\<lparr>colspan = 1, col_len = 0, mm_align_follow = None\<rparr>"
      "\<lparr>text_of = '' a '', left_border_text = ''|'', right_border_text = ''||''\<rparr>"
      "\<lparr>colspan = 1, col_len = 0, mm_align_follow = None\<rparr>"]
  by simp

subsection \<open>The separator patterns\<close>

lemma nullable_lang: "nullable r = ([] \<in> lang r)"
  by (induction r) (auto simp: conc_def intro: star_empty)

lemma star_tail:
  assumes "x \<in> star A" and "x = c # w"
  shows "\<exists>u v. w = u @ v \<and> c # u \<in> A \<and> v \<in> star A"
  using assms
proof (induction arbitrary: w rule: star.induct)
  case star_empty
  then show ?case by simp
next
  case (star_more u v)
  show ?case
  proof (cases u)
    case Nil
    with star_more show ?thesis by simp
  next
    case (Cons a u')
    with star_more.prems have "a = c" "w = u' @ v" by simp_all
    with Cons star_more.hyps show ?thesis by blast
  qed
qed

lemma lang_deriv: "lang (deriv c r) = {w. c # w \<in> lang r}"
proof (induction r)
  case (Seq r s)
  have "{w. c # w \<in> conc (lang r) (lang s)} =
      conc {w. c # w \<in> lang r} (lang s) \<union> (if [] \<in> lang r then {w. c # w \<in> lang s} else {})"
    by (auto simp: conc_def Cons_eq_append_conv)
  with Seq show ?case by (simp add: nullable_lang)
next
  case (Star r)
  have "{w. c # w \<in> star (lang r)} = conc {w. c # w \<in> lang r} (star (lang r))"
  proof (intro set_eqI iffI)
    fix w assume "w \<in> {w. c # w \<in> star (lang r)}"
    then show "w \<in> conc {w. c # w \<in> lang r} (star (lang r))"
      using star_tail[of "c # w" "lang r" c w] by (auto simp: conc_def)
  next
    fix w assume "w \<in> conc {w. c # w \<in> lang r} (star (lang r))"
    then obtain u v where "w = u @ v" "c # u \<in> lang r" "v \<in> star (lang r)"
      by (auto simp: conc_def)
    then show "w \<in> {w. c # w \<in> star (lang r)}"
      using star_more[of "c # u" "lang r" v] by simp
  qed
  with Star show ?case by simp
qed auto

lemma full_match_lang: "full_match r s = (s \<in> lang r)"
  by (induction s arbitrary: r) (simp_all add: nullable_lang lang_deriv)

lemma star_atom: "star {[c] |c. p c} = {w. list_all p w}"
proof (intro set_eqI iffI)
  fix w assume "w \<in> star {[c] |c. p c}"
  then have "list_all p w"
    by (induction rule: star.induct) auto
  then show "w \<in> {w. list_all p w}" by simp
next
  fix w assume "w \<in> {w. list_all p w}"
  then have "list_all p w" by simp
  then show "w \<in> star {[c] |c. p c}"
  proof (induction w)
    case Nil
    show ?case by (rule star_empty)
  next
    case (Cons a w)
    then have "[a] \<in> {[c] |c. p c}" "w \<in> star {[c] |c. p c}" by simp_all
    from star_more[OF this] show ?case by simp
  qed
qed

lemma list_all_eq_replicate: "list_all (\<lambda>x. x = d) w = (w = replicate (length w) d)"
  by (induction w) auto

lemma lang_Space_star: "lang (Star Space) = {w. list_all is_space w}"
  using star_atom[of is_space] by (simp add: Space_def)

lemma lang_Opt_colon: "lang (Opt (Chr CHR '':'')) = {(if lead then '':'' else []) |lead. True}"
  by (auto simp: Opt_def Chr_def)

lemma lang_Plus1_Chr: "lang (Plus1 (Chr d)) = {replicate (Suc n) d |n. True}"
proof -
  have "lang (Star (Chr d)) = {w. list_all (\<lambda>x. x = d) w}"
    using star_atom[of "\<lambda>x. x = d"] by (simp add: Chr_def)
  then have "lang (Plus1 (Chr d)) = {d # w |w. list_all (\<lambda>x. x = d) w}"
    by (auto simp: Plus1_def conc_def Chr_def)
  also have "\<dots> = {replicate (Suc n) d |n. True}"
  proof (intro set_eqI iffI)
    fix x assume "x \<in> {d # w |w. list_all (\<lambda>x. x = d) w}"
    then obtain w where w: "x = d # w" "list_all (\<lambda>x. x = d) w"
      by auto
    from w(2) have "w = replicate (length w) d"
      by (simp only: list_all_eq_replicate)
    with w(1) have "x = replicate (Suc (length w)) d" by simp
    then show "x \<in> {replicate (Suc n) d |n. True}" by blast
  next
    fix x assume "x \<in> {replicate (Suc n) d |n. True}"
    then obtain n where "x = d # replicate n d" by auto
    moreover have "list_all (\<lambda>x. x = d) (replicate n d)"
      by (simp add: list_all_iff)
    ultimately show "x \<in> {d # w |w. list_all (\<lambda>x. x = d) w}" by blast
  qed
  finally show ?thesis .
qed

lemma lang_separator_rexp:
  "lang (separator_rexp d) =
     {separator_cell l lead d n trail r |l lead n trail r.
        list_all is_space l \<and> list_all is_space r}"
proof -
  have "lang (separator_rexp d) =
      conc {w. list_all is_space w} (conc {(if lead then '':'' else []) |lead. True}
        (conc {replicate (Suc n) d |n. True} (conc {(if trail then '':'' else []) |trail. True}
          {w. list_all is_space w})))"
    unfolding separator_rexp_def lang.simps(5) lang_Space_star lang_Opt_colon lang_Plus1_Chr ..
  also have "\<dots> = {separator_cell l lead d n trail r |l lead n trail r.
        list_all is_space l \<and> list_all is_space r}"
    unfolding conc_def separator_cell_def by blast
  finally show ?thesis .
qed

lemma is_space_newline: "is_space (CHR 0x0A)"
  by (simp add: is_space_def)

lemma re_match_separator_rexp:
  "re_match (separator_rexp d) s =
     (\<exists>l lead n trail r. list_all is_space l \<and> list_all is_space r
        \<and> s = separator_cell l lead d n trail r)"
proof
  assume "re_match (separator_rexp d) s"
  then consider "s \<in> lang (separator_rexp d)"
    | "s \<noteq> []" "last s = CHR 0x0A" "butlast s \<in> lang (separator_rexp d)"
    by (auto simp: re_match_def full_match_lang)
  then show "\<exists>l lead n trail r. list_all is_space l \<and> list_all is_space r
        \<and> s = separator_cell l lead d n trail r"
  proof cases
    case 1
    then show ?thesis unfolding lang_separator_rexp by blast
  next
    case 2
    then obtain l lead n trail r where cell: "list_all is_space l" "list_all is_space r"
        "butlast s = separator_cell l lead d n trail r"
      unfolding lang_separator_rexp by blast
    from 2(1,2) have "s = butlast s @ [CHR 0x0A]"
      by (metis append_butlast_last_id)
    with cell(3) have "s = separator_cell l lead d n trail (r @ [CHR 0x0A])"
      by (simp add: separator_cell_def)
    moreover have "list_all is_space (r @ [CHR 0x0A])"
      using cell(2) is_space_newline by simp
    ultimately show ?thesis using cell(1) by blast
  qed
next
  assume "\<exists>l lead n trail r. list_all is_space l \<and> list_all is_space r
        \<and> s = separator_cell l lead d n trail r"
  then have "s \<in> lang (separator_rexp d)"
    unfolding lang_separator_rexp by blast
  then show "re_match (separator_rexp d) s"
    by (simp add: re_match_def full_match_lang)
qed

subsection \<open>The Multi-Markdown constructor as a partial operation\<close>

lemma py_strip_all_space:
  assumes "list_all is_space s"
  shows "py_strip s = []"
proof -
  from assms have "dropWhile is_space s = []"
    by (simp add: dropWhile_eq_Nil_conv list_all_iff)
  then show ?thesis by (simp only: py_strip_def rev.simps dropWhile.simps)
qed

lemma py_strip_Nil_iff: "(py_strip s = []) = list_all is_space s"
proof
  assume "py_strip s = []"
  then have "dropWhile is_space (rev (dropWhile is_space s)) = []"
    by (simp add: py_strip_def)
  then have "\<forall>x \<in> set (dropWhile is_space s). is_space x"
    by (simp add: dropWhile_eq_Nil_conv)
  then have "dropWhile is_space s = []"
    by (metis dropWhile_eq_Nil_conv hd_dropWhile list.set_sel(1))
  then show "list_all is_space s"
    by (simp add: dropWhile_eq_Nil_conv list_all_iff)
qed (rule py_strip_all_space)

lemma align_error_iff:
  "(MultiMarkdownAlignColumn_align data = Inl e) = (py_strip data = [] \<and> e = IndexError)"
  by (auto simp: MultiMarkdownAlignColumn_align_cases Let_def)

lemma init_error_iff:
  "(MultiMarkdownAlignColumn_init base data = Inl e) = (py_strip data = [] \<and> e = IndexError)"
  using align_error_iff[of data e]
  by (auto simp: MultiMarkdownAlignColumn_init_def split: sum.splits)

lemma PATTERN_strip:
  assumes "re_match PATTERN data"
  shows "py_strip data \<noteq> []"
proof -
  from assms obtain l lead n trail r where cell: "list_all is_space l" "list_all is_space r"
      "data = separator_cell l lead CHR ''-'' n trail r"
    unfolding PATTERN_def re_match_separator_rexp by blast
  show ?thesis
    unfolding cell(3) py_strip_separator_cell[OF cell(1,2) not_space_dash]
    by (rule separator_cell_not_Nil)
qed

text \<open>
  Claim C10. The constructor indexes the stripped text at its first and last position. For a
  text whose \<open>strip()\<close> is empty it raises \<open>IndexError\<close>, and that is its only failure. A text
  that matches \<open>PATTERN\<close> has a stripped text that is not empty and the constructor
  succeeds on it, as it does on the \<open>-\<close> of \<open>new_empty_column\<close>.
\<close>

theorem constructor_partial:
  "(py_strip data = [] \<longrightarrow> MultiMarkdownAlignColumn_init base data = Inl IndexError)
 \<and> (re_match PATTERN data \<longrightarrow>
       py_strip data \<noteq> [] \<and> \<not> isl (MultiMarkdownAlignColumn_init base data))
 \<and> isl (MultiMarkdownAlignColumn_init base data) = (py_strip data = [])
 \<and> py_strip ''-'' \<noteq> []
 \<and> MultiMarkdownAlignRow_new_empty_column base
     = Inr \<lparr>colspan = colspan base, col_len = col_len base, mm_align_follow = None\<rparr>"
proof -
  have fails: "isl (MultiMarkdownAlignColumn_init base data) = (py_strip data = [])"
    using init_error_iff[of base data] by (cases "MultiMarkdownAlignColumn_init base data") auto
  have empty: "MultiMarkdownAlignColumn_init base data = Inl IndexError" if "py_strip data = []"
    using that init_error_iff[of base data IndexError] by simp
  have dash: "py_strip ''-'' \<noteq> []"
    by (simp add: py_strip_def is_space_def)
  have new: "MultiMarkdownAlignRow_new_empty_column base
     = Inr \<lparr>colspan = colspan base, col_len = col_len base, mm_align_follow = None\<rparr>"
    by (simp add: MultiMarkdownAlignRow_new_empty_column_def MultiMarkdownAlignColumn_init_def
        MultiMarkdownAlignColumn_align_def py_strip_def is_space_def py_getitem_def)
  show ?thesis
    using fails empty dash new PATTERN_strip[of data] by blast
qed

theorem constructor_partial_witness:
  "MultiMarkdownAlignColumn_init \<lparr>colspan = 1, col_len = 0\<rparr> ''  '' = Inl IndexError
 \<and> re_match PATTERN '' :-: ''
 \<and> \<not> isl (MultiMarkdownAlignColumn_init \<lparr>colspan = 1, col_len = 0\<rparr> '' :-: '')"
proof -
  have blank: "py_strip ''  '' = []"
    by (simp add: py_strip_def is_space_def)
  have matches: "re_match PATTERN '' :-: ''"
    by (simp add: re_match_def PATTERN_def separator_rexp_def Opt_def Plus1_def Chr_def
        Space_def is_space_def)
  show ?thesis
    using blank matches
      constructor_partial[of "''  ''" "\<lparr>colspan = 1, col_len = 0\<rparr>"]
      constructor_partial[of "'' :-: ''" "\<lparr>colspan = 1, col_len = 0\<rparr>"]
    by blast
qed

subsection \<open>Row classes of the Pandoc parser\<close>

lemma columns_all_match_list_all: "columns_all_match r cols = list_all (re_match r) cols"
  by (induction cols) simp_all

lemma has_alignment_markers_list_ex:
  "has_alignment_markers cols = list_ex (\<lambda>col. CHR '':'' \<in> set col) cols"
  by (induction cols) simp_all

lemma separator_cell_border: "d \<in> set (separator_cell l lead d n trail r)"
  by (simp add: separator_cell_def)

lemma separator_cell_chars:
  assumes "list_all is_space l" "list_all is_space r" "c \<in> set (separator_cell l lead d n trail r)"
  shows "is_space c \<or> c = CHR '':'' \<or> c = d"
  using assms by (auto simp: separator_cell_def list_all_iff split: if_splits)

lemma single_not_double:
  assumes "re_match (separator_rexp CHR ''-'') s"
  shows "\<not> re_match (separator_rexp CHR ''='') s"
proof
  assume "re_match (separator_rexp CHR ''='') s"
  then obtain l lead n trail r where cell: "list_all is_space l" "list_all is_space r"
      "s = separator_cell l lead CHR ''='' n trail r"
    unfolding re_match_separator_rexp by blast
  from assms have "CHR ''-'' \<in> set s"
    unfolding re_match_separator_rexp using separator_cell_border by blast
  with separator_cell_chars[OF cell(1,2)] cell(3)
  have "is_space CHR ''-'' \<or> CHR ''-'' = CHR '':'' \<or> CHR ''-'' = CHR ''=''"
    by blast
  then show False by (simp add: is_space_def)
qed

lemma single_rows_not_double:
  assumes "str_cols \<noteq> []" "list_all (re_match (separator_rexp CHR ''-'')) str_cols"
  shows "\<not> list_all (re_match (separator_rexp CHR ''='')) str_cols"
  using assms single_not_double by (cases str_cols) auto

text \<open>
  Claim C2 speaks of every row all of whose cells match a separator pattern. In the row with
  no cells every cell matches both patterns and none holds a colon, but both tests return
  \<open>False\<close> on an empty list of cells and the row is a data row, not a plain separator row.
\<close>

theorem create_row_empty_counterexample:
  "list_all (re_match (separator_rexp CHR ''-'')) []
 \<and> \<not> list_ex (\<lambda>col. CHR '':'' \<in> set col) []
 \<and> list_all (re_match (separator_rexp CHR ''='')) []
 \<and> PandocTableParser_create_row [] \<noteq> (new_row (SeparatorRow ''-'') :: unit Row)
 \<and> PandocTableParser_create_row [] \<noteq> (new_row (SeparatorRow ''='') :: unit Row)
 \<and> PandocTableParser_create_row [] = (new_row DataRow :: unit Row)"
  by (simp add: PandocTableParser_create_row_def is_single_row_separator_with_align_def
      is_double_row_separator_with_align_def new_row_def)

text \<open>
  Claim C2, amended. For a row with at least one cell, all of whose cells match the
  single-border pattern, the parser creates a \<open>PandocAlignRow\<close> with \<open>-\<close> if and only if some
  cell contains a colon, and a plain \<open>SeparatorRow\<close> with \<open>-\<close> otherwise; the same holds for the
  double-border pattern with \<open>=\<close>. A row with a cell that fails the one pattern and a cell
  that fails the other is a data row, and so is a row with no cells.
\<close>

theorem create_row_classes:
  "(str_cols \<noteq> [] \<and> list_all (re_match (separator_rexp CHR ''-'')) str_cols \<longrightarrow>
      (PandocTableParser_create_row str_cols :: 'c Row) =
        (if list_ex (\<lambda>col. CHR '':'' \<in> set col) str_cols then new_row (PandocAlignRow ''-'')
         else new_row (SeparatorRow ''-'')))
 \<and> (str_cols \<noteq> [] \<and> list_all (re_match (separator_rexp CHR ''='')) str_cols \<longrightarrow>
      (PandocTableParser_create_row str_cols :: 'c Row) =
        (if list_ex (\<lambda>col. CHR '':'' \<in> set col) str_cols then new_row (PandocAlignRow ''='')
         else new_row (SeparatorRow ''='')))
 \<and> (list_ex (\<lambda>col. \<not> re_match (separator_rexp CHR ''-'') col) str_cols
      \<and> list_ex (\<lambda>col. \<not> re_match (separator_rexp CHR ''='') col) str_cols \<longrightarrow>
      (PandocTableParser_create_row str_cols :: 'c Row) = new_row DataRow)
 \<and> (PandocTableParser_create_row [] :: 'c Row) = new_row DataRow"
proof -
  have single: "(PandocTableParser_create_row str_cols :: 'c Row) =
        (if list_ex (\<lambda>col. CHR '':'' \<in> set col) str_cols then new_row (PandocAlignRow ''-'')
         else new_row (SeparatorRow ''-''))"
    if "str_cols \<noteq> [] \<and> list_all (re_match (separator_rexp CHR ''-'')) str_cols"
    using that
    by (simp add: PandocTableParser_create_row_def is_single_row_separator_with_align_def
        columns_all_match_list_all has_alignment_markers_list_ex)
  have double: "(PandocTableParser_create_row str_cols :: 'c Row) =
        (if list_ex (\<lambda>col. CHR '':'' \<in> set col) str_cols then new_row (PandocAlignRow ''='')
         else new_row (SeparatorRow ''=''))"
    if "str_cols \<noteq> [] \<and> list_all (re_match (separator_rexp CHR ''='')) str_cols"
  proof -
    from that have "\<not> list_all (re_match (separator_rexp CHR ''-'')) str_cols"
      using single_rows_not_double by blast
    with that show ?thesis
      by (simp add: PandocTableParser_create_row_def is_single_row_separator_with_align_def
          is_double_row_separator_with_align_def
          columns_all_match_list_all has_alignment_markers_list_ex)
  qed
  have data: "(PandocTableParser_create_row str_cols :: 'c Row) = new_row DataRow"
    if "list_ex (\<lambda>col. \<not> re_match (separator_rexp CHR ''-'') col) str_cols
      \<and> list_ex (\<lambda>col. \<not> re_match (separator_rexp CHR ''='') col) str_cols"
  proof -
    from that have "\<not> list_all (re_match (separator_rexp CHR ''-'')) str_cols"
        "\<not> list_all (re_match (separator_rexp CHR ''='')) str_cols"
      by (auto simp: list_all_iff list_ex_iff)
    then show ?thesis
      by (simp add: PandocTableParser_create_row_def is_single_row_separator_with_align_def
          is_double_row_separator_with_align_def columns_all_match_list_all)
  qed
  have none: "(PandocTableParser_create_row [] :: 'c Row) = new_row DataRow"
    by (simp add: PandocTableParser_create_row_def is_single_row_separator_with_align_def
        is_double_row_separator_with_align_def)
  show ?thesis
    using single double data none by blast
qed

lemma ex_single1: "re_match (separator_rexp CHR ''-'') ''---''"
  by (simp add: re_match_def separator_rexp_def Opt_def Plus1_def Chr_def Space_def is_space_def)
lemma ex_single2: "re_match (separator_rexp CHR ''-'') '':--''"
  by (simp add: re_match_def separator_rexp_def Opt_def Plus1_def Chr_def Space_def is_space_def)
lemma ex_double1: "re_match (separator_rexp CHR ''='') ''===''"
  by (simp add: re_match_def separator_rexp_def Opt_def Plus1_def Chr_def Space_def is_space_def)
lemma ex_double2: "re_match (separator_rexp CHR ''='') ''==:''"
  by (simp add: re_match_def separator_rexp_def Opt_def Plus1_def Chr_def Space_def is_space_def)
lemma ex_data1: "\<not> re_match (separator_rexp CHR ''-'') ''a''"
  by (simp add: re_match_def separator_rexp_def Opt_def Plus1_def Chr_def Space_def is_space_def)
lemma ex_data2: "\<not> re_match (separator_rexp CHR ''='') ''a''"
  by (simp add: re_match_def separator_rexp_def Opt_def Plus1_def Chr_def Space_def is_space_def)

theorem create_row_classes_witness:
  "PandocTableParser_create_row [''---'', ''---''] = (new_row (SeparatorRow ''-'') :: unit Row)
 \<and> PandocTableParser_create_row [''---'', '':--''] = (new_row (PandocAlignRow ''-'') :: unit Row)
 \<and> PandocTableParser_create_row [''==='', ''===''] = (new_row (SeparatorRow ''='') :: unit Row)
 \<and> PandocTableParser_create_row [''==='', ''==:''] = (new_row (PandocAlignRow ''='') :: unit Row)
 \<and> PandocTableParser_create_row [''---'', ''a''] = (new_row DataRow :: unit Row)"
  using create_row_classes[where 'c = unit, of "[''---'', ''---'']"]
    create_row_classes[where 'c = unit, of "[''---'', '':--'']"]
    create_row_classes[where 'c = unit, of "[''==='', ''==='']"]
    create_row_classes[where 'c = unit, of "[''==='', ''==:'']"]
    create_row_classes[where 'c = unit, of "[''---'', ''a'']"]
    ex_single1 ex_single2 ex_double1 ex_double2 ex_data1 ex_data2
  by simp

subsection \<open>Inserting separator rows\<close>

lemma list_insert_in_range:
  assumes "0 \<le> i" "i \<le> int (length xs)"
  shows "list_insert xs i x = take (nat i) xs @ x # drop (nat i) xs"
  using assms by (simp add: list_insert_def Let_def min_def)

lemma length_list_insert: "length (list_insert xs i x) = Suc (length xs)"
  by (simp add: list_insert_def Let_def)

lemma map_list_insert: "map f (list_insert xs i x) = list_insert (map f xs) i (f x)"
  by (simp add: list_insert_def Let_def take_map drop_map)

lemma set_list_insert: "set (list_insert xs i x) = insert x (set xs)"
proof -
  have "set (take n xs) \<union> set (drop n xs) = set xs" for n
    by (metis append_take_drop_id set_append)
  then show ?thesis by (auto simp: list_insert_def Let_def)
qed

lemma row_class_pack_row: "row_class (pack_row pc t row) = row_class row"
  by (simp add: pack_row_def)

lemma rows_pack: "rows (pack pc t) = map (pack_row pc t) (rows t)"
  by (simp add: pack_def)

lemma classes_pack: "map row_class (rows (pack pc t)) = map row_class (rows t)"
  by (simp add: rows_pack row_class_pack_row)

lemma has_alignment_list_ex: "has_alignment rs = list_ex isinstance_PandocAlignRow rs"
  by (induction rs) simp_all

lemma isinstance_class:
  "isinstance_PandocAlignRow row = (\<exists>sep. row_class row = PandocAlignRow sep)"
  by (cases "row_class row") (simp_all add: isinstance_PandocAlignRow_def)

lemma isinstance_pack_row:
  "isinstance_PandocAlignRow (pack_row pc t row) = isinstance_PandocAlignRow row"
  by (simp add: isinstance_PandocAlignRow_def row_class_pack_row)

lemma is_separator_pack_row: "is_separator (pack_row pc t row) = is_separator row"
  by (simp add: is_separator_def row_class_pack_row)

lemma nth_map_inserted:
  assumes "k \<le> length xs"
  shows "map f (take k xs @ x # drop k xs) ! k = f x"
  using assms by (simp add: nth_append)

lemma mm_single_rows:
  assumes "0 \<le> row_num table_pos" and "row_num table_pos < int (length (rows table))"
  shows "rows (fst (MultiMarkdownTableDriver_editor_insert_single_hline pack_columns table table_pos))
    = map (pack_row pack_columns
             (table\<lparr>rows := take (nat (row_num table_pos + 1)) (rows table)
                 @ new_row MultiMarkdownAlignRow # drop (nat (row_num table_pos + 1)) (rows table)\<rparr>))
        (take (nat (row_num table_pos + 1)) (rows table)
           @ new_row MultiMarkdownAlignRow # drop (nat (row_num table_pos + 1)) (rows table))"
proof -
  have "list_insert (rows table) (row_num table_pos + 1) x
      = take (nat (row_num table_pos + 1)) (rows table)
          @ x # drop (nat (row_num table_pos + 1)) (rows table)" for x
    using assms by (intro list_insert_in_range) simp_all
  then show ?thesis
    by (simp add: MultiMarkdownTableDriver_editor_insert_single_hline_def Let_def rows_pack)
qed

lemma pd_single_rows:
  assumes "0 \<le> row_num table_pos" and "row_num table_pos < int (length (rows table))"
  shows "rows (fst (PandocTableDriver_editor_insert_single_hline pack_columns table table_pos))
    = map (pack_row pack_columns
             (table\<lparr>rows := take (nat (row_num table_pos + 1)) (rows table)
                 @ new_row (if has_alignment (rows table) then PandocAlignRow ''-''
                            else SeparatorRow ''-'')
                 # drop (nat (row_num table_pos + 1)) (rows table)\<rparr>))
        (take (nat (row_num table_pos + 1)) (rows table)
           @ new_row (if has_alignment (rows table) then PandocAlignRow ''-'' else SeparatorRow ''-'')
           # drop (nat (row_num table_pos + 1)) (rows table))"
proof -
  have "list_insert (rows table) (row_num table_pos + 1) x
      = take (nat (row_num table_pos + 1)) (rows table)
          @ x # drop (nat (row_num table_pos + 1)) (rows table)" for x
    using assms by (intro list_insert_in_range) simp_all
  then show ?thesis
    by (simp add: PandocTableDriver_editor_insert_single_hline_def Let_def rows_pack)
qed

lemma is_separator_new_row: "is_separator (new_row cls) = (cls \<noteq> DataRow)"
  by (cases cls) (simp_all add: is_separator_def new_row_def)

lemma row_class_new_row: "row_class (new_row cls) = cls"
  by (simp add: new_row_def)

text \<open>
  Claim C5. For a position whose row number is within the table, \<open>editor_insert_single_hline\<close>
  of either driver gives the rows of the table with one new separator row put in at index
  \<open>row_num + 1\<close>, every row packed: the rows that were there keep their order, the table has
  one row more, and the row at \<open>row_num + 1\<close> is a separator. The result carries the message
  and the position \<open>(row_num, field_num)\<close> of the argument. On a table of three rows at row 1
  the new separator is at index 2 and the table has four rows.
\<close>

theorem insert_single_hline:
  assumes "0 \<le> row_num table_pos" and "row_num table_pos < int (length (rows table))"
  shows
    "let k = nat (row_num table_pos + 1);
         classes = map row_class (rows table);
         mm = MultiMarkdownTableDriver_editor_insert_single_hline pack_columns table table_pos;
         mm_rows = take k (rows table) @ new_row MultiMarkdownAlignRow # drop k (rows table);
         sep = (if has_alignment (rows table) then PandocAlignRow ''-'' else SeparatorRow ''-'');
         pd = PandocTableDriver_editor_insert_single_hline pack_columns table table_pos;
         pd_rows = take k (rows table) @ new_row sep # drop k (rows table)
     in rows (fst mm) = map (pack_row pack_columns (table\<lparr>rows := mm_rows\<rparr>)) mm_rows
      \<and> map row_class (rows (fst mm)) = take k classes @ MultiMarkdownAlignRow # drop k classes
      \<and> length (rows (fst mm)) = length (rows table) + 1
      \<and> is_separator (rows (fst mm) ! k)
      \<and> snd mm = (''Single separator row inserted'',
                   \<lparr>row_num = row_num table_pos, field_num = field_num table_pos\<rparr>)
      \<and> rows (fst pd) = map (pack_row pack_columns (table\<lparr>rows := pd_rows\<rparr>)) pd_rows
      \<and> map row_class (rows (fst pd)) = take k classes @ sep # drop k classes
      \<and> length (rows (fst pd)) = length (rows table) + 1
      \<and> is_separator (rows (fst pd) ! k)
      \<and> snd pd = (''Single separator row inserted'',
                   \<lparr>row_num = row_num table_pos, field_num = field_num table_pos\<rparr>)"
proof -
  let ?k = "nat (row_num table_pos + 1)"
  have k: "?k \<le> length (rows table)"
    using assms by simp
  note mm = mm_single_rows[OF assms, of pack_columns]
  note pd = pd_single_rows[OF assms, of pack_columns]
  have mm_classes: "map row_class
      (rows (fst (MultiMarkdownTableDriver_editor_insert_single_hline pack_columns table table_pos)))
      = take ?k (map row_class (rows table)) @ MultiMarkdownAlignRow
          # drop ?k (map row_class (rows table))"
    unfolding mm by (simp add: take_map drop_map row_class_pack_row o_def row_class_new_row)
  have pd_classes: "map row_class
      (rows (fst (PandocTableDriver_editor_insert_single_hline pack_columns table table_pos)))
      = take ?k (map row_class (rows table))
          @ (if has_alignment (rows table) then PandocAlignRow ''-'' else SeparatorRow ''-'')
          # drop ?k (map row_class (rows table))"
    unfolding pd by (simp add: take_map drop_map row_class_pack_row o_def row_class_new_row)
  have mm_len: "length
      (rows (fst (MultiMarkdownTableDriver_editor_insert_single_hline pack_columns table table_pos)))
      = length (rows table) + 1"
    unfolding mm using k by simp
  have pd_len: "length
      (rows (fst (PandocTableDriver_editor_insert_single_hline pack_columns table table_pos)))
      = length (rows table) + 1"
    unfolding pd using k by simp
  have mm_sep: "is_separator
      (rows (fst (MultiMarkdownTableDriver_editor_insert_single_hline pack_columns table table_pos)) ! ?k)"
    unfolding mm nth_map_inserted[OF k] by (simp add: is_separator_pack_row is_separator_new_row)
  have pd_sep: "is_separator
      (rows (fst (PandocTableDriver_editor_insert_single_hline pack_columns table table_pos)) ! ?k)"
    unfolding pd nth_map_inserted[OF k] by (simp add: is_separator_pack_row is_separator_new_row)
  have mm_pos: "snd (MultiMarkdownTableDriver_editor_insert_single_hline pack_columns table table_pos)
      = (''Single separator row inserted'',
         \<lparr>row_num = row_num table_pos, field_num = field_num table_pos\<rparr>)"
    by (simp add: MultiMarkdownTableDriver_editor_insert_single_hline_def Let_def)
  have pd_pos: "snd (PandocTableDriver_editor_insert_single_hline pack_columns table table_pos)
      = (''Single separator row inserted'',
         \<lparr>row_num = row_num table_pos, field_num = field_num table_pos\<rparr>)"
    by (simp add: PandocTableDriver_editor_insert_single_hline_def Let_def)
  show ?thesis
    unfolding Let_def
    using mm pd mm_classes pd_classes mm_len pd_len mm_sep pd_sep mm_pos pd_pos
    by (intro conjI) assumption+
qed

theorem insert_single_hline_witness:
  "map row_class (rows (fst (MultiMarkdownTableDriver_editor_insert_single_hline (\<lambda>t r. columns r)
       \<lparr>rows = [new_row DataRow, new_row MultiMarkdownAlignRow, new_row DataRow :: unit Row]\<rparr>
       \<lparr>row_num = 1, field_num = 3\<rparr>)))
     = [DataRow, MultiMarkdownAlignRow, MultiMarkdownAlignRow, DataRow]
 \<and> length (rows (fst (MultiMarkdownTableDriver_editor_insert_single_hline (\<lambda>t r. columns r)
       \<lparr>rows = [new_row DataRow, new_row MultiMarkdownAlignRow, new_row DataRow :: unit Row]\<rparr>
       \<lparr>row_num = 1, field_num = 3\<rparr>))) = 4
 \<and> snd (MultiMarkdownTableDriver_editor_insert_single_hline (\<lambda>t r. columns r)
       \<lparr>rows = [new_row DataRow, new_row MultiMarkdownAlignRow, new_row DataRow :: unit Row]\<rparr>
       \<lparr>row_num = 1, field_num = 3\<rparr>)
     = (''Single separator row inserted'', \<lparr>row_num = 1, field_num = 3\<rparr>)
 \<and> map row_class (rows (fst (PandocTableDriver_editor_insert_single_hline (\<lambda>t r. columns r)
       \<lparr>rows = [new_row DataRow, new_row MultiMarkdownAlignRow, new_row DataRow :: unit Row]\<rparr>
       \<lparr>row_num = 1, field_num = 3\<rparr>)))
     = [DataRow, MultiMarkdownAlignRow, SeparatorRow ''-'', DataRow]"
proof -
  let ?table = "\<lparr>rows = [new_row DataRow, new_row MultiMarkdownAlignRow, new_row DataRow :: unit Row]\<rparr>"
  let ?pos = "\<lparr>row_num = 1, field_num = 3\<rparr>"
  have lower: "0 \<le> row_num ?pos" by simp
  have upper: "row_num ?pos < int (length (rows ?table))" by simp
  have k: "nat (row_num ?pos + 1) = Suc (Suc 0)" by simp
  have no_align: "\<not> has_alignment (rows ?table)"
    by (simp add: new_row_def isinstance_PandocAlignRow_def)
  from insert_single_hline[OF lower upper, of "\<lambda>t r. columns r"] show ?thesis
    unfolding Let_def k using no_align by (simp add: new_row_def pack_row_def eval_nat_numeral)
qed

subsection \<open>Inserting a separator row and moving past it\<close>

lemma classes_insert_empty_row:
  "map row_class (rows (insert_empty_row pc t i)) = list_insert (map row_class (rows t)) i DataRow"
  by (simp add: insert_empty_row_def classes_pack map_list_insert row_class_new_row)

lemma mm_move_table1:
  assumes "0 \<le> row_num table_pos" and "row_num table_pos < int (length (rows table))"
  shows "map row_class (rows (pack pc (table\<lparr>rows :=
            list_insert (rows table) (row_num table_pos + 1) (new_row MultiMarkdownAlignRow)\<rparr>)))
     = take (nat (row_num table_pos + 1)) (map row_class (rows table))
         @ MultiMarkdownAlignRow # drop (nat (row_num table_pos + 1)) (map row_class (rows table))"
proof -
  have "list_insert (rows table) (row_num table_pos + 1) x
      = take (nat (row_num table_pos + 1)) (rows table)
          @ x # drop (nat (row_num table_pos + 1)) (rows table)" for x
    using assms by (intro list_insert_in_range) simp_all
  then show ?thesis
    by (simp add: classes_pack take_map drop_map row_class_new_row)
qed

lemma is_separator_class: "is_separator row = (row_class row \<noteq> DataRow)"
  by (cases "row_class row") (simp_all add: is_separator_def)

lemma py_getitem_in_range:
  "0 \<le> i \<Longrightarrow> i < int (length xs) \<Longrightarrow> py_getitem xs i = Inr (xs ! nat i)"
  by (simp add: py_getitem_def)

text \<open>
  Claim C6. For a position whose row number is within the table, \<open>editor_insert_hline_and_move\<close>
  raises nothing and returns the message with the position \<open>(row_num + 2, 0)\<close>. The new table
  has a \<open>MultiMarkdownAlignRow\<close> at index \<open>row_num + 1\<close> and a data row at index \<open>row_num + 2\<close>:
  when the operation is called at the last row, or when the row that followed is a separator,
  an empty data row is put in at \<open>row_num + 2\<close>; otherwise the row that followed is a data
  row and nothing more is added. At the last row the rows are the old ones followed by the
  separator and the empty data row.
\<close>

theorem insert_hline_and_move:
  assumes "0 \<le> row_num table_pos" and "row_num table_pos < int (length (rows table))"
  shows
    "\<exists>table'.
       MultiMarkdownTableDriver_editor_insert_hline_and_move pack_columns table table_pos
         = Inr (table', ''Single separator row inserted'',
                \<lparr>row_num = row_num table_pos + 2, field_num = 0\<rparr>)
     \<and> (let k = nat (row_num table_pos + 1);
             classes = map row_class (rows table)
         in map row_class (rows table') =
              (if row_num table_pos + 1 < int (length (rows table))
                  \<and> \<not> is_separator (rows table ! k)
               then take k classes @ MultiMarkdownAlignRow # drop k classes
               else take k classes @ MultiMarkdownAlignRow # DataRow # drop k classes)
          \<and> map row_class (rows table') ! k = MultiMarkdownAlignRow
          \<and> map row_class (rows table') ! Suc k = DataRow
          \<and> (row_num table_pos + 1 = int (length (rows table)) \<longrightarrow>
                map row_class (rows table') = classes @ [MultiMarkdownAlignRow, DataRow]))"
proof -
  let ?r = "row_num table_pos"
  let ?k = "nat (?r + 1)"
  let ?classes = "map row_class (rows table)"
  let ?t2 = "pack pack_columns (table\<lparr>rows :=
            list_insert (rows table) (?r + 1) (new_row MultiMarkdownAlignRow)\<rparr>)"
  let ?result = "(''Single separator row inserted'', \<lparr>row_num = ?r + 2, field_num = 0\<rparr>)"
  have k: "?k \<le> length (rows table)" and k2: "nat (?r + 2) = Suc ?k"
    using assms by simp_all
  note c2 = mm_move_table1[OF assms, of pack_columns]
  have len2: "length (rows ?t2) = Suc (length (rows table))"
    by (simp add: rows_pack length_list_insert)
  have ins2: "list_insert (take ?k ?classes @ MultiMarkdownAlignRow # drop ?k ?classes) (?r + 2) DataRow
      = take ?k ?classes @ MultiMarkdownAlignRow # DataRow # drop ?k ?classes"
  proof -
    have "list_insert (take ?k ?classes @ MultiMarkdownAlignRow # drop ?k ?classes) (?r + 2) DataRow
        = take (Suc ?k) (take ?k ?classes @ MultiMarkdownAlignRow # drop ?k ?classes)
          @ DataRow # drop (Suc ?k) (take ?k ?classes @ MultiMarkdownAlignRow # drop ?k ?classes)"
      using assms k by (subst list_insert_in_range) (simp_all add: k2)
    also have "\<dots> = take ?k ?classes @ MultiMarkdownAlignRow # DataRow # drop ?k ?classes"
      using k by (simp add: min_absorb2)
    finally show ?thesis .
  qed
  show ?thesis
  proof (cases "?r + 1 < int (length (rows table))")
    case False
    then have last_row: "?r + 1 = int (length (rows table))" and kl: "?k = length (rows table)"
      using assms by simp_all
    have run: "MultiMarkdownTableDriver_editor_insert_hline_and_move pack_columns table table_pos
        = Inr (insert_empty_row pack_columns ?t2 (?r + 2), ?result)"
      using last_row
      by (simp add: MultiMarkdownTableDriver_editor_insert_hline_and_move_def Let_def table_len_def
          rows_pack length_list_insert)
    have cls: "map row_class (rows (insert_empty_row pack_columns ?t2 (?r + 2)))
        = take ?k ?classes @ MultiMarkdownAlignRow # DataRow # drop ?k ?classes"
      by (simp only: classes_insert_empty_row c2 ins2)
    show ?thesis
      using False run cls k by (auto simp: Let_def kl nth_append)
  next
    case True
    then have idx: "0 \<le> ?r + 2" "?r + 2 < int (length (rows ?t2))"
      using assms by (simp_all add: len2)
    have kk: "?k < length (rows table)"
      using True assms by simp
    have row2: "table_getitem ?t2 (?r + 2) = Inr (rows ?t2 ! Suc ?k)"
      unfolding table_getitem_def py_getitem_in_range[OF idx] k2 ..
    have "row_class (rows ?t2 ! Suc ?k) = map row_class (rows ?t2) ! Suc ?k"
      using kk by (simp add: len2)
    also have "\<dots> = ?classes ! ?k"
      unfolding c2 using kk by (simp add: nth_append)
    finally have cls2: "row_class (rows ?t2 ! Suc ?k) = row_class (rows table ! ?k)"
      using kk by simp
    then have sep2: "is_separator (rows ?t2 ! Suc ?k) = is_separator (rows table ! ?k)"
      by (simp add: is_separator_class)
    show ?thesis
    proof (cases "is_separator (rows table ! ?k)")
      case sep: True
      have run: "MultiMarkdownTableDriver_editor_insert_hline_and_move pack_columns table table_pos
          = Inr (insert_empty_row pack_columns ?t2 (?r + 2), ?result)"
        using True sep sep2 row2
        by (simp add: MultiMarkdownTableDriver_editor_insert_hline_and_move_def Let_def
            table_len_def rows_pack length_list_insert)
      have cls: "map row_class (rows (insert_empty_row pack_columns ?t2 (?r + 2)))
          = take ?k ?classes @ MultiMarkdownAlignRow # DataRow # drop ?k ?classes"
        by (simp only: classes_insert_empty_row c2 ins2)
      show ?thesis
        using True sep run cls k by (auto simp: Let_def nth_append)
    next
      case nosep: False
      have run: "MultiMarkdownTableDriver_editor_insert_hline_and_move pack_columns table table_pos
          = Inr (?t2, ?result)"
        using True nosep sep2 row2
        by (simp add: MultiMarkdownTableDriver_editor_insert_hline_and_move_def Let_def
            table_len_def rows_pack length_list_insert)
      have data: "?classes ! ?k = DataRow"
        using nosep kk by (simp add: is_separator_class)
      have "drop ?k ?classes = ?classes ! ?k # drop (Suc ?k) ?classes"
        using kk Cons_nth_drop_Suc[of "nat (row_num table_pos + 1)" "map row_class (rows table)"]
        by simp
      with data have nxt: "(take ?k ?classes @ MultiMarkdownAlignRow # drop ?k ?classes) ! Suc ?k
          = DataRow"
        using k by (simp add: nth_append)
      show ?thesis
        using True nosep run c2 k nxt by (auto simp: Let_def nth_append)
    qed
  qed
qed

theorem insert_hline_and_move_witness:
  "(\<exists>table'. MultiMarkdownTableDriver_editor_insert_hline_and_move (\<lambda>t r. columns r)
        \<lparr>rows = [new_row DataRow, new_row DataRow, new_row DataRow :: unit Row]\<rparr>
        \<lparr>row_num = 2, field_num = 1\<rparr>
      = Inr (table', ''Single separator row inserted'', \<lparr>row_num = 4, field_num = 0\<rparr>)
    \<and> map row_class (rows table')
      = [DataRow, DataRow, DataRow, MultiMarkdownAlignRow, DataRow])
 \<and> (\<exists>table'. MultiMarkdownTableDriver_editor_insert_hline_and_move (\<lambda>t r. columns r)
        \<lparr>rows = [new_row DataRow, new_row MultiMarkdownAlignRow, new_row DataRow :: unit Row]\<rparr>
        \<lparr>row_num = 0, field_num = 1\<rparr>
      = Inr (table', ''Single separator row inserted'', \<lparr>row_num = 2, field_num = 0\<rparr>)
    \<and> map row_class (rows table')
      = [DataRow, MultiMarkdownAlignRow, DataRow, MultiMarkdownAlignRow, DataRow])"
proof (rule conjI)
  let ?t = "\<lparr>rows = [new_row DataRow, new_row DataRow, new_row DataRow :: unit Row]\<rparr>"
  let ?p = "\<lparr>row_num = 2, field_num = 1\<rparr>"
  have bounds: "0 \<le> row_num ?p" "row_num ?p < int (length (rows ?t))" by simp_all
  from insert_hline_and_move[OF bounds, of "\<lambda>t r. columns r"]
  obtain table' where
    run: "MultiMarkdownTableDriver_editor_insert_hline_and_move (\<lambda>t r. columns r) ?t ?p
      = Inr (table', ''Single separator row inserted'',
             \<lparr>row_num = row_num ?p + 2, field_num = 0\<rparr>)"
    and cls: "row_num ?p + 1 = int (length (rows ?t)) \<longrightarrow>
      map row_class (rows table') = map row_class (rows ?t) @ [MultiMarkdownAlignRow, DataRow]"
    unfolding Let_def by blast
  from cls have "map row_class (rows table')
      = [DataRow, DataRow, DataRow, MultiMarkdownAlignRow, DataRow]"
    by (simp add: new_row_def)
  moreover from run
  have "MultiMarkdownTableDriver_editor_insert_hline_and_move (\<lambda>t r. columns r) ?t ?p
      = Inr (table', ''Single separator row inserted'', \<lparr>row_num = 4, field_num = 0\<rparr>)"
    by simp
  ultimately show "\<exists>table'.
      MultiMarkdownTableDriver_editor_insert_hline_and_move (\<lambda>t r. columns r) ?t ?p
        = Inr (table', ''Single separator row inserted'', \<lparr>row_num = 4, field_num = 0\<rparr>)
      \<and> map row_class (rows table')
        = [DataRow, DataRow, DataRow, MultiMarkdownAlignRow, DataRow]"
    by (intro exI conjI)
next
  let ?t = "\<lparr>rows = [new_row DataRow, new_row MultiMarkdownAlignRow, new_row DataRow :: unit Row]\<rparr>"
  let ?p = "\<lparr>row_num = 0, field_num = 1\<rparr>"
  have bounds: "0 \<le> row_num ?p" "row_num ?p < int (length (rows ?t))" by simp_all
  from insert_hline_and_move[OF bounds, of "\<lambda>t r. columns r"]
  obtain table' where
    run: "MultiMarkdownTableDriver_editor_insert_hline_and_move (\<lambda>t r. columns r) ?t ?p
      = Inr (table', ''Single separator row inserted'',
             \<lparr>row_num = row_num ?p + 2, field_num = 0\<rparr>)"
    and cls: "map row_class (rows table') =
      (if row_num ?p + 1 < int (length (rows ?t))
          \<and> \<not> is_separator (rows ?t ! nat (row_num ?p + 1))
       then take (nat (row_num ?p + 1)) (map row_class (rows ?t)) @ MultiMarkdownAlignRow
              # drop (nat (row_num ?p + 1)) (map row_class (rows ?t))
       else take (nat (row_num ?p + 1)) (map row_class (rows ?t)) @ MultiMarkdownAlignRow
              # DataRow # drop (nat (row_num ?p + 1)) (map row_class (rows ?t)))"
    unfolding Let_def by blast
  from cls have "map row_class (rows table')
      = [DataRow, MultiMarkdownAlignRow, DataRow, MultiMarkdownAlignRow, DataRow]"
    by (simp add: new_row_def is_separator_def)
  moreover from run
  have "MultiMarkdownTableDriver_editor_insert_hline_and_move (\<lambda>t r. columns r) ?t ?p
      = Inr (table', ''Single separator row inserted'', \<lparr>row_num = 2, field_num = 0\<rparr>)"
    by simp
  ultimately show "\<exists>table'.
      MultiMarkdownTableDriver_editor_insert_hline_and_move (\<lambda>t r. columns r) ?t ?p
        = Inr (table', ''Single separator row inserted'', \<lparr>row_num = 2, field_num = 0\<rparr>)
      \<and> map row_class (rows table')
        = [DataRow, MultiMarkdownAlignRow, DataRow, MultiMarkdownAlignRow, DataRow]"
    by (intro exI conjI)
qed

subsection \<open>Alignment rows are kept by the Pandoc driver\<close>

lemma list_ex_list_insert: "list_ex P (list_insert xs i x) = (P x \<or> list_ex P xs)"
  by (simp add: list_ex_iff set_list_insert)

lemma list_ex_isinstance_classes:
  "list_ex isinstance_PandocAlignRow rs = list_ex (\<lambda>c. \<exists>sep. c = PandocAlignRow sep) (map row_class rs)"
  by (simp add: list_ex_iff isinstance_class)

lemma pd_single_classes:
  "map row_class (rows (fst (PandocTableDriver_editor_insert_single_hline pc table table_pos)))
     = list_insert (map row_class (rows table)) (row_num table_pos + 1)
         (if has_alignment (rows table) then PandocAlignRow ''-'' else SeparatorRow ''-'')"
  by (simp add: PandocTableDriver_editor_insert_single_hline_def Let_def classes_pack
      map_list_insert row_class_new_row)

lemma pd_double_classes:
  "map row_class (rows (fst (PandocTableDriver_editor_insert_double_hline pc table table_pos)))
     = list_insert (map row_class (rows table)) (row_num table_pos + 1)
         (if has_alignment (rows table) then PandocAlignRow ''='' else SeparatorRow ''='')"
  by (simp add: PandocTableDriver_editor_insert_double_hline_def Let_def classes_pack
      map_list_insert row_class_new_row)

text \<open>
  Claim C7. Both \<open>editor_insert_single_hline\<close> and \<open>editor_insert_double_hline\<close> of the Pandoc
  driver look through all the rows for a \<open>PandocAlignRow\<close>. The classes of the rows afterwards
  are the old ones with one class inserted at \<open>row_num + 1\<close>: \<open>PandocAlignRow\<close> when there was
  such a row, \<open>SeparatorRow\<close> otherwise, with \<open>-\<close> for the single and \<open>=\<close> for the double line. So
  a table holds a \<open>PandocAlignRow\<close> after either operation exactly when it held one before.
\<close>

theorem pandoc_hline_alignment:
  "let single = PandocTableDriver_editor_insert_single_hline pack_columns table table_pos;
       double = PandocTableDriver_editor_insert_double_hline pack_columns table table_pos;
       aligned = list_ex isinstance_PandocAlignRow (rows table);
       classes = map row_class (rows table)
   in has_alignment (rows table) = aligned
    \<and> map row_class (rows (fst single))
        = list_insert classes (row_num table_pos + 1)
            (if aligned then PandocAlignRow ''-'' else SeparatorRow ''-'')
    \<and> map row_class (rows (fst double))
        = list_insert classes (row_num table_pos + 1)
            (if aligned then PandocAlignRow ''='' else SeparatorRow ''='')
    \<and> list_ex isinstance_PandocAlignRow (rows (fst single)) = aligned
    \<and> list_ex isinstance_PandocAlignRow (rows (fst double)) = aligned
    \<and> (aligned \<longrightarrow> list_ex isinstance_PandocAlignRow (rows (fst single))
                 \<and> list_ex isinstance_PandocAlignRow (rows (fst double)))"
proof -
  note scan = has_alignment_list_ex[of "rows table"]
  have single: "list_ex isinstance_PandocAlignRow
      (rows (fst (PandocTableDriver_editor_insert_single_hline pack_columns table table_pos)))
      = list_ex isinstance_PandocAlignRow (rows table)"
    unfolding list_ex_isinstance_classes pd_single_classes list_ex_list_insert
    by (simp add: scan list_ex_isinstance_classes)
  have double: "list_ex isinstance_PandocAlignRow
      (rows (fst (PandocTableDriver_editor_insert_double_hline pack_columns table table_pos)))
      = list_ex isinstance_PandocAlignRow (rows table)"
    unfolding list_ex_isinstance_classes pd_double_classes list_ex_list_insert
    by (simp add: scan list_ex_isinstance_classes)
  show ?thesis
    unfolding Let_def
    using scan single double
      pd_single_classes[of pack_columns table table_pos]
      pd_double_classes[of pack_columns table table_pos]
    by simp
qed

theorem pandoc_hline_alignment_witness:
  "map row_class (rows (fst (PandocTableDriver_editor_insert_single_hline (\<lambda>t r. columns r)
       \<lparr>rows = [new_row DataRow, new_row (PandocAlignRow ''=''), new_row DataRow :: unit Row]\<rparr>
       \<lparr>row_num = 2, field_num = 0\<rparr>)))
     = [DataRow, PandocAlignRow ''='', DataRow, PandocAlignRow ''-'']
 \<and> map row_class (rows (fst (PandocTableDriver_editor_insert_double_hline (\<lambda>t r. columns r)
       \<lparr>rows = [new_row DataRow, new_row (PandocAlignRow ''=''), new_row DataRow :: unit Row]\<rparr>
       \<lparr>row_num = 2, field_num = 0\<rparr>)))
     = [DataRow, PandocAlignRow ''='', DataRow, PandocAlignRow ''='']
 \<and> map row_class (rows (fst (PandocTableDriver_editor_insert_double_hline (\<lambda>t r. columns r)
       \<lparr>rows = [new_row DataRow, new_row (SeparatorRow ''-''), new_row DataRow :: unit Row]\<rparr>
       \<lparr>row_num = 0, field_num = 0\<rparr>)))
     = [DataRow, SeparatorRow ''='', SeparatorRow ''-'', DataRow]"
  using pandoc_hline_alignment[of "\<lambda>t r. columns r"
      "\<lparr>rows = [new_row DataRow, new_row (PandocAlignRow ''=''), new_row DataRow :: unit Row]\<rparr>"
      "\<lparr>row_num = 2, field_num = 0\<rparr>"]
    pandoc_hline_alignment[of "\<lambda>t r. columns r"
      "\<lparr>rows = [new_row DataRow, new_row (SeparatorRow ''-''), new_row DataRow :: unit Row]\<rparr>"
      "\<lparr>row_num = 0, field_num = 0\<rparr>"]
  by (simp add: Let_def new_row_def isinstance_PandocAlignRow_def list_insert_def)

end
